theory Spec2Isabelle
  imports Complex_Main "HOL-Library.Sublist"
begin

section \<open>Values of the Python program\<close>

text \<open>
  The module \<^verbatim>\<open>opentopodata/api.py\<close> raises its own \<^verbatim>\<open>ClientError\<close> and
  catches, in \<^verbatim>\<open>get_elevation\<close>, \<^verbatim>\<open>backend.InputError\<close>,
  \<^verbatim>\<open>config.ConfigError\<close> and every other \<^verbatim>\<open>Exception\<close>. An exception is
  a value carrying its message (\<^verbatim>\<open>str(e)\<close>); a function that may raise returns
  \<open>exn + 'a\<close>, with \<open>Inl\<close> for the raise. The three named classes are taken to be
  unrelated (none is a subclass of another), so that an exception matches the first
  \<^verbatim>\<open>except\<close> clause that names its class; \<open>OtherException\<close> stands for every
  other subclass of \<^verbatim>\<open>Exception\<close>.
\<close>

datatype exn =
    ClientError string
  | InputError string
  | ConfigError string
  | OtherException string

text \<open>
  A Python float: a finite number, an infinity or a NaN. The finite values are carried
  as rationals (every binary64 number is one); the sign of zero is not kept.
\<close>

datatype pyfloat = Finite rat | PosInf | NegInf | NaN

text \<open>The comparison \<^verbatim>\<open>a <= b\<close> of IEEE 754: false as soon as one side is a NaN.\<close>

fun float_le :: "pyfloat \<Rightarrow> pyfloat \<Rightarrow> bool" where
  "float_le NaN b = False"
| "float_le a NaN = False"
| "float_le NegInf b = True"
| "float_le a PosInf = True"
| "float_le (Finite a) (Finite b) = (a \<le> b)"
| "float_le PosInf b = False"
| "float_le a NegInf = False"

text \<open>An integer constant of the module compared with a float: its exact value.\<close>

definition float_of_int :: "int \<Rightarrow> pyfloat" where
  "float_of_int i = Finite (of_int i)"

definition DEFAULT_INTERPOLATION_METHOD :: string where
  "DEFAULT_INTERPOLATION_METHOD = ''bilinear''"

definition LAT_MIN :: int where "LAT_MIN = - 90"
definition LAT_MAX :: int where "LAT_MAX = 90"
definition LON_MIN :: int where "LON_MIN = - 180"
definition LON_MAX :: int where "LON_MAX = 180"

section \<open>String operations of Python used by the module\<close>

text \<open>\<^verbatim>\<open>str(n)\<close> of an integer, as the f-strings of the messages format it.\<close>

definition digit_char :: "nat \<Rightarrow> char" where
  "digit_char d = ''0123456789'' ! d"

fun str_nat :: "nat \<Rightarrow> string" where
  "str_nat n = (if n < 10 then [digit_char n] else str_nat (n div 10) @ [digit_char (n mod 10)])"

definition str_int :: "int \<Rightarrow> string" where
  "str_int i = (if i < 0 then CHR ''-'' # str_nat (nat (- i)) else str_nat (nat i))"

text \<open>\<^verbatim>\<open>s.strip(c)\<close> for a one-character argument: drops the leading and the trailing
  occurrences of the character.\<close>

definition strip_char :: "char \<Rightarrow> string \<Rightarrow> string" where
  "strip_char c s = rev (dropWhile (\<lambda>x. x = c) (rev (dropWhile (\<lambda>x. x = c) s)))"

text \<open>\<^verbatim>\<open>s.split(c)\<close> for a one-character separator: every occurrence separates, empty
  pieces are kept, and the empty string gives one empty piece.\<close>

fun split_char :: "char \<Rightarrow> string \<Rightarrow> string list" where
  "split_char c [] = [[]]"
| "split_char c (x # xs) =
     (if x = c then [] # split_char c xs
      else (case split_char c xs of
              [] \<Rightarrow> [[x]]
            | seg # segs \<Rightarrow> (x # seg) # segs))"

text \<open>\<^verbatim>\<open>s.split(c, 1)\<close>: at most one split, at the first occurrence.\<close>

definition split_char_once :: "char \<Rightarrow> string \<Rightarrow> string list" where
  "split_char_once c s =
     (if c \<in> set s
      then [takeWhile (\<lambda>x. x \<noteq> c) s, tl (dropWhile (\<lambda>x. x \<noteq> c) s)]
      else [s])"

text \<open>\<^verbatim>\<open>s.startswith(p)\<close> is \<^const>\<open>prefix\<close>; \<^verbatim>\<open>s[4:]\<close> is \<^term>\<open>drop 4 s\<close>;
  \<^verbatim>\<open>sep.join(xs)\<close>:\<close>

fun join :: "string \<Rightarrow> string list \<Rightarrow> string" where
  "join sep [] = []"
| "join sep [x] = x"
| "join sep (x # y # ys) = x @ sep @ join sep (y # ys)"

section \<open>The messages\<close>

definition quote :: string where
  "quote = [CHR 0x27]"

definition msg_no_locations :: string where
  "msg_no_locations =
     ''No locations provided.'' @
     '' Add locations in a query string: ?locations=lat1,lon1|lat2,lon2.''"

definition msg_polyline :: string where
  "msg_polyline = ''Unable to parse locations as polyline.''"

definition msg_too_many :: "int \<Rightarrow> int \<Rightarrow> string" where
  "msg_too_many n_locations max_n_locations =
     ''Too many locations provided ('' @ str_int n_locations @
     ''), the limit is '' @ str_int max_n_locations @ ''.''"

text \<open>The common start of the per-location messages; \<open>i\<close> is the index of
  \<^verbatim>\<open>enumerate\<close>, from 0, and the message prints \<^verbatim>\<open>i+1\<close>.\<close>

definition msg_unable :: "string \<Rightarrow> nat \<Rightarrow> string" where
  "msg_unable loc i =
     ''Unable to parse location '' @ quote @ loc @ quote @
     '' in position '' @ str_int (int i + 1) @ ''.''"

definition msg_no_comma :: "string \<Rightarrow> nat \<Rightarrow> string" where
  "msg_no_comma loc i = msg_unable loc i @ '' Add locations like lat1,lon1|lat2,lon2.''"

definition msg_latitude :: "string \<Rightarrow> nat \<Rightarrow> string" where
  "msg_latitude loc i =
     msg_unable loc i @
     '' Latitude must be between '' @ str_int LAT_MIN @ '' and '' @ str_int LAT_MAX @ ''.'' @
     '' Provide locations in lat,lon order.''"

definition msg_longitude :: "string \<Rightarrow> nat \<Rightarrow> string" where
  "msg_longitude loc i =
     msg_unable loc i @
     '' Longitude must be between '' @ str_int LON_MIN @ '' and '' @ str_int LON_MAX @ ''.''"

section \<open>The location parsers\<close>

text \<open>
  The functions keep the names they have in the module, without the leading underscore
  (\<open>parse_locations\<close> is \<^verbatim>\<open>_parse_locations\<close>).
  Two functions of the module come from outside it and are parameters of the model:
  \<^item> \<open>pf\<close>, the built-in \<^verbatim>\<open>float\<close> on a string, \<open>None\<close> where it raises
    \<^verbatim>\<open>ValueError\<close>;
  \<^item> \<open>decode\<close>, \<^verbatim>\<open>polyline.decode\<close> of the imported package, \<open>None\<close> where it
    raises any exception.
\<close>

type_synonym float_parser = "string \<Rightarrow> pyfloat option"
type_synonym polyline_decoder = "string \<Rightarrow> (pyfloat \<times> pyfloat) list option"

text \<open>
  The loop of \<^verbatim>\<open>_parse_latlon_locations\<close> over \<^verbatim>\<open>enumerate(locations)\<close>: \<open>i\<close> is
  the index of the location at the head, \<open>lats\<close> and \<open>lons\<close> the lists built so far.
\<close>

fun parse_latlon_loop ::
  "float_parser \<Rightarrow> nat \<Rightarrow> string list \<Rightarrow> pyfloat list \<Rightarrow> pyfloat list
     \<Rightarrow> exn + (pyfloat list \<times> pyfloat list)" where
  "parse_latlon_loop pf i [] lats lons = Inr (lats, lons)"
| "parse_latlon_loop pf i (loc # rest) lats lons =
     (if CHR '','' \<notin> set loc then Inl (ClientError (msg_no_comma loc i))
      else
        let parts = split_char_once (CHR '','') loc;
            lat = parts ! 0;
            lon = parts ! 1
        in (case pf lat of
              None \<Rightarrow> Inl (ClientError (msg_unable loc i))
            | Some lat \<Rightarrow>
               (case pf lon of
                  None \<Rightarrow> Inl (ClientError (msg_unable loc i))
                | Some lon \<Rightarrow>
                   if \<not> (float_le (float_of_int LAT_MIN) lat \<and> float_le lat (float_of_int LAT_MAX))
                   then Inl (ClientError (msg_latitude loc i))
                   else if \<not> (float_le (float_of_int LON_MIN) lon \<and> float_le lon (float_of_int LON_MAX))
                   then Inl (ClientError (msg_longitude loc i))
                   else parse_latlon_loop pf (i + 1) rest (lats @ [lat]) (lons @ [lon]))))"

text \<open>\<^verbatim>\<open>_parse_latlon_locations(locations, max_n_locations)\<close>.\<close>

definition parse_latlon_locations ::
  "float_parser \<Rightarrow> string \<Rightarrow> int \<Rightarrow> exn + (pyfloat list \<times> pyfloat list)" where
  "parse_latlon_locations pf locations max_n_locations =
     (let locs = split_char (CHR ''|'') (strip_char (CHR ''|'') locations);
          n_locations = int (length locs)
      in if n_locations > max_n_locations
         then Inl (ClientError (msg_too_many n_locations max_n_locations))
         else parse_latlon_loop pf 0 locs [] [])"

text \<open>\<^verbatim>\<open>_parse_polyline_locations(locations, max_n_locations)\<close>.\<close>

definition parse_polyline_locations ::
  "polyline_decoder \<Rightarrow> string \<Rightarrow> int \<Rightarrow> exn + (pyfloat list \<times> pyfloat list)" where
  "parse_polyline_locations decode locations max_n_locations =
     (let locations' =
            (if locations \<noteq> [] \<and> prefix ''enc:'' locations then drop 4 locations
             else locations)
      in (case decode locations' of
            None \<Rightarrow> Inl (ClientError msg_polyline)
          | Some latlons \<Rightarrow>
             let lats = map fst latlons;
                 lons = map snd latlons;
                 n_locations = int (length lats)
             in if n_locations > max_n_locations
                then Inl (ClientError (msg_too_many n_locations max_n_locations))
                else Inr (lats, lons)))"

text \<open>\<^verbatim>\<open>_parse_locations(locations, max_n_locations)\<close>; the argument is
  \<^verbatim>\<open>request.args.get("locations")\<close>, \<open>None\<close> when the query has no such parameter.\<close>

definition parse_locations ::
  "float_parser \<Rightarrow> polyline_decoder \<Rightarrow> string option \<Rightarrow> int
     \<Rightarrow> exn + (pyfloat list \<times> pyfloat list)" where
  "parse_locations pf decode locations max_n_locations =
     (case locations of
        None \<Rightarrow> Inl (ClientError msg_no_locations)
      | Some s \<Rightarrow>
         if s = [] then Inl (ClientError msg_no_locations)
         else if CHR '','' \<in> set s then parse_latlon_locations pf s max_n_locations
         else parse_polyline_locations decode s max_n_locations)"

section \<open>The interpolation method validator and the dataset resolver\<close>

text \<open>\<^verbatim>\<open>backend.INTERPOLATION_METHODS\<close> is a dict of the backend module; the model takes
  the list of its keys, in the order \<^verbatim>\<open>keys()\<close> gives them.\<close>

definition msg_interpolation :: "string list \<Rightarrow> string \<Rightarrow> string" where
  "msg_interpolation methods method =
     ''Invalid interpolation method '' @ quote @ method @ quote @ '' not recognized.'' @
     '' Valid interpolation methods: '' @
     join '', '' methods @ ''.''"

text \<open>\<^verbatim>\<open>_validate_interpolation(method)\<close>.\<close>

definition validate_interpolation :: "string list \<Rightarrow> string \<Rightarrow> exn + string" where
  "validate_interpolation methods method =
     (if method \<notin> set methods then Inl (ClientError (msg_interpolation methods method))
      else Inr method)"

definition msg_dataset :: "string \<Rightarrow> string" where
  "msg_dataset name = ''Dataset '' @ quote @ name @ quote @ '' not in config.''"

text \<open>\<^verbatim>\<open>_get_dataset(name)\<close>; \<open>loaded\<close> is the outcome of \<^verbatim>\<open>_load_datasets()\<close>.\<close>

definition get_dataset :: "exn + (string \<rightharpoonup> 'd) \<Rightarrow> string \<Rightarrow> exn + 'd" where
  "get_dataset loaded name =
     (case loaded of
        Inl e \<Rightarrow> Inl e
      | Inr datasets \<Rightarrow>
         (case datasets name of
            None \<Rightarrow> Inl (ClientError (msg_dataset name))
          | Some d \<Rightarrow> Inr d))"

section \<open>The request handler\<close>

text \<open>
  What the request handling reads from outside the module: the backend's method registry
  and elevation function, the outcomes of \<^verbatim>\<open>_load_config()\<close> and
  \<^verbatim>\<open>_load_datasets()\<close> (each may raise), Flask's debug flag, and the two library
  functions of the parsers. \<open>'d\<close> is the type of \<^verbatim>\<open>config.Dataset\<close> objects. Of the
  config dict the module reads two keys; \<^verbatim>\<open>access_control_allow_origin\<close> is \<open>None\<close>
  for Python's \<^verbatim>\<open>None\<close>. The loaders give the same outcome each time they are called
  while one request is handled (the cache stores a returned value, never an exception).
\<close>

record config =
  max_locations_per_request :: int
  access_control_allow_origin :: "string option"

record 'd env =
  INTERPOLATION_METHODS :: "string list"
  load_config :: "exn + config"
  load_datasets :: "exn + (string \<rightharpoonup> 'd)"
  backend_get_elevation ::
    "pyfloat list \<Rightarrow> pyfloat list \<Rightarrow> 'd \<Rightarrow> string \<Rightarrow> exn + pyfloat option list"
  app_debug :: bool
  builtin_float :: float_parser
  polyline_decode :: polyline_decoder

text \<open>One entry of \<^verbatim>\<open>results\<close>, and the JSON body with its HTTP status.\<close>

datatype result = Result (result_elevation: "pyfloat option") (result_lat: pyfloat) (result_lng: pyfloat)

datatype body = Results string "result list" | Error string string

datatype response = Response (body: body) (status_code: nat)

definition msg_server_error :: string where
  "msg_server_error = ''Server error, please retry request.''"

text \<open>The body of the \<^verbatim>\<open>try\<close>; \<open>args\<close> is \<^verbatim>\<open>request.args\<close>. The argument
  \<^verbatim>\<open>_load_config()["max_locations_per_request"]\<close> is evaluated before
  \<^verbatim>\<open>_parse_locations\<close> is called.\<close>

definition try_block :: "'d env \<Rightarrow> (string \<rightharpoonup> string) \<Rightarrow> string \<Rightarrow> exn + response" where
  "try_block env args dataset_name =
     (let interpolation =
            (case args ''interpolation'' of
               None \<Rightarrow> DEFAULT_INTERPOLATION_METHOD
             | Some v \<Rightarrow> v)
      in case validate_interpolation (INTERPOLATION_METHODS env) interpolation of
           Inl e \<Rightarrow> Inl e
         | Inr interpolation \<Rightarrow>
            let locations = args ''locations''
            in (case load_config env of
                  Inl e \<Rightarrow> Inl e
                | Inr cfg \<Rightarrow>
                   (case parse_locations (builtin_float env) (polyline_decode env) locations
                           (max_locations_per_request cfg) of
                      Inl e \<Rightarrow> Inl e
                    | Inr (lats, lons) \<Rightarrow>
                       (case get_dataset (load_datasets env) dataset_name of
                          Inl e \<Rightarrow> Inl e
                        | Inr dataset \<Rightarrow>
                           (case backend_get_elevation env lats lons dataset interpolation of
                              Inl e \<Rightarrow> Inl e
                            | Inr elevations \<Rightarrow>
                               Inr (Response
                                      (Results ''OK''
                                         (map (\<lambda>(z, la, lo). Result z la lo)
                                            (zip elevations (zip lats lons))))
                                      200))))))"

text \<open>\<^verbatim>\<open>get_elevation(dataset_name)\<close>: the \<^verbatim>\<open>try\<close> with its three
  \<^verbatim>\<open>except\<close> clauses, in the source's order. \<open>Inl e\<close> is the exception the handler
  raises again in debug mode.\<close>

definition get_elevation :: "'d env \<Rightarrow> (string \<rightharpoonup> string) \<Rightarrow> string \<Rightarrow> exn + response" where
  "get_elevation env args dataset_name =
     (case try_block env args dataset_name of
        Inr r \<Rightarrow> Inr r
      | Inl (ClientError m) \<Rightarrow> Inr (Response (Error ''INVALID_REQUEST'' m) 400)
      | Inl (InputError m) \<Rightarrow> Inr (Response (Error ''INVALID_REQUEST'' m) 400)
      | Inl (ConfigError m) \<Rightarrow> Inr (Response (Error ''SERVER_ERROR'' m) 500)
      | Inl (OtherException m) \<Rightarrow>
         if app_debug env then Inl (OtherException m)
         else Inr (Response (Error ''SERVER_ERROR'' msg_server_error) 500))"

text \<open>
  \<^verbatim>\<open>apply_cors(response)\<close>, registered with \<^verbatim>\<open>@app.after_request\<close>: it reads the
  configuration again and, when an origin is configured (a non-empty string), sets the
  header \<^verbatim>\<open>access-control-allow-origin\<close> on the response. It has no \<^verbatim>\<open>try\<close>: when
  \<^verbatim>\<open>_load_config()\<close> raises, \<^verbatim>\<open>apply_cors\<close> raises. A response with its header:
\<close>

datatype http_response = Http (http_body: response) (allow_origin_header: "string option")

definition apply_cors :: "'d env \<Rightarrow> response \<Rightarrow> exn + http_response" where
  "apply_cors env response =
     (case load_config env of
        Inl e \<Rightarrow> Inl e
      | Inr cfg \<Rightarrow>
         (case access_control_allow_origin cfg of
            None \<Rightarrow> Inr (Http response None)
          | Some origin \<Rightarrow>
             if origin \<noteq> [] then Inr (Http response (Some origin))
             else Inr (Http response None)))"

text \<open>
  One request to \<^verbatim>\<open>/v1/<dataset_name>\<close>: Flask calls the view
  \<^verbatim>\<open>get_elevation\<close> and then, on the response the view returned, the
  \<^verbatim>\<open>after_request\<close> function. \<open>Inl e\<close> is an exception that leaves the module: the
  response of the view, if there was one, is not what the client receives.
\<close>

definition elevation_request :: "'d env \<Rightarrow> (string \<rightharpoonup> string) \<Rightarrow> string \<Rightarrow> exn + http_response" where
  "elevation_request env args dataset_name =
     (case get_elevation env args dataset_name of
        Inl e \<Rightarrow> Inl e
      | Inr response \<Rightarrow> apply_cors env response)"

section \<open>The library functions on concrete inputs\<close>

text \<open>
  Python's \<^verbatim>\<open>float\<close> on a string, after the \<^verbatim>\<open>floatvalue\<close> grammar of the language
  reference: surrounding whitespace is dropped; an optional sign; then \<^verbatim>\<open>inf\<close>,
  \<^verbatim>\<open>infinity\<close> or \<^verbatim>\<open>nan\<close> in any case, or digits (single underscores between
  digits allowed) with an optional point and an optional exponent. The strings of the
  model are lists of \<open>char\<close>, each standing for a code point below 256 (a string with a
  code point beyond is outside the model); the whitespace among them is tab, line feed,
  vertical tab, form feed, carriage return, space, U+0085 and U+00A0, and the only decimal
  digits are \<^verbatim>\<open>0\<close> to \<^verbatim>\<open>9\<close>.
\<close>

definition is_space :: "char \<Rightarrow> bool" where
  "is_space c = ((of_char c :: nat) \<in> {9, 10, 11, 12, 13, 32, 133, 160})"

definition is_digit :: "char \<Rightarrow> bool" where
  "is_digit c = (48 \<le> (of_char c :: nat) \<and> (of_char c :: nat) \<le> 57)"

definition to_lower :: "char \<Rightarrow> char" where
  "to_lower c =
     (if 65 \<le> (of_char c :: nat) \<and> (of_char c :: nat) \<le> 90
      then char_of ((of_char c :: nat) + 32) else c)"

fun digitpart :: "string \<Rightarrow> bool" where
  "digitpart [] = False"
| "digitpart [c] = is_digit c"
| "digitpart (c # d # cs) =
     (is_digit c \<and> (if d = CHR ''_'' then digitpart cs else digitpart (d # cs)))"

definition digits_value :: "string \<Rightarrow> nat" where
  "digits_value s = foldl (\<lambda>acc c. 10 * acc + ((of_char c :: nat) - 48)) 0 (filter is_digit s)"

definition is_sign :: "char \<Rightarrow> bool" where
  "is_sign c = (c = CHR ''+'' \<or> c = CHR ''-'')"

definition exponent_value :: "string \<Rightarrow> int option" where
  "exponent_value s =
     (case s of
        [] \<Rightarrow> Some 0
      | e # r \<Rightarrow>
         (let ds = (if r \<noteq> [] \<and> is_sign (hd r) then tl r else r)
          in if \<not> digitpart ds then None
             else if r \<noteq> [] \<and> hd r = CHR ''-'' then Some (- int (digits_value ds))
             else Some (int (digits_value ds))))"

text \<open>The decimal number \<open>m \<times> 10\<^sup>k\<close> a well-formed string denotes, \<open>None\<close> for a
  string that is not well-formed.\<close>

definition floatnumber :: "string \<Rightarrow> (nat \<times> int) option" where
  "floatnumber s =
     (let is_e = (\<lambda>c. c = CHR ''e'' \<or> c = CHR ''E'');
          mantissa = takeWhile (\<lambda>c. \<not> is_e c) s;
          ip = takeWhile (\<lambda>c. c \<noteq> CHR ''.'') mantissa;
          after = dropWhile (\<lambda>c. c \<noteq> CHR ''.'') mantissa;
          fp = tl after;
          wellformed =
            (if after = [] then digitpart ip
             else (ip = [] \<or> digitpart ip) \<and> (fp = [] \<or> digitpart fp) \<and> \<not> (ip = [] \<and> fp = []))
      in if \<not> wellformed then None
         else (case exponent_value (dropWhile (\<lambda>c. \<not> is_e c) s) of
                 None \<Rightarrow> None
               | Some ex \<Rightarrow>
                  Some (digits_value (ip @ fp), ex - int (length (filter is_digit fp)))))"

text \<open>
  The conversion to binary64 is correctly rounded: the result is the binary64 number
  nearest to the decimal value, the one with an even significand when two are equally
  near, and an infinity when the rounded value is beyond the largest binary64 number.
  \<open>binary64 num den\<close> rounds the fraction \<open>num / den\<close>: \<open>e\<close> is the exponent of the
  power of two at or below the fraction, \<open>t\<close> the exponent of the spacing of binary64
  numbers there (53 significant bits, smallest exponent -1022, below which the spacing
  stays \<open>2\<^sup>-\<^sup>1\<^sup>0\<^sup>7\<^sup>4\<close>), and \<open>n\<close> the fraction in units of that spacing,
  rounded to an integer.
\<close>

fun bit_length :: "nat \<Rightarrow> nat" where
  "bit_length n = (if n = 0 then 0 else Suc (bit_length (n div 2)))"

definition round_half_even :: "nat \<Rightarrow> nat \<Rightarrow> nat" where
  "round_half_even a b =
     (let q = a div b; r = a mod b
      in if 2 * r < b then q
         else if b < 2 * r then q + 1
         else if even q then q else q + 1)"

definition binary64 :: "nat \<Rightarrow> nat \<Rightarrow> pyfloat" where
  "binary64 num den =
     (if num = 0 then Finite 0
      else
        let b = int (bit_length num) - int (bit_length den);
            e = (if (if 0 \<le> b then den * 2 ^ nat b \<le> num else den \<le> num * 2 ^ nat (- b))
                 then b else b - 1);
            t = max e (- 1022) - 52;
            n = (if 0 \<le> t then round_half_even num (den * 2 ^ nat t)
                 else round_half_even (num * 2 ^ nat (- t)) den)
        in if 971 < t \<or> (t = 971 \<and> 2 ^ 53 \<le> n) then PosInf
           else Finite (if 0 \<le> t then of_nat n * 2 ^ nat t else of_nat n / 2 ^ nat (- t)))"

fun float_neg :: "pyfloat \<Rightarrow> pyfloat" where
  "float_neg (Finite r) = Finite (- r)"
| "float_neg PosInf = NegInf"
| "float_neg NegInf = PosInf"
| "float_neg NaN = NaN"

definition py_float :: float_parser where
  "py_float s =
     (let t = rev (dropWhile is_space (rev (dropWhile is_space s)));
          negative = (t \<noteq> [] \<and> hd t = CHR ''-'');
          u = (if t \<noteq> [] \<and> is_sign (hd t) then tl t else t);
          l = map to_lower u
      in if l = ''inf'' \<or> l = ''infinity'' then Some (if negative then NegInf else PosInf)
         else if l = ''nan'' then Some NaN
         else (case floatnumber u of
                 None \<Rightarrow> None
               | Some (m, k) \<Rightarrow>
                  let x = (if 0 \<le> k then binary64 (m * 10 ^ nat k) 1
                           else binary64 m (10 ^ nat (- k)))
                  in Some (if negative then float_neg x else x)))"

text \<open>
  Modelled from the spec: \<^verbatim>\<open>polyline.decode\<close>, of the third-party package the module
  imports (its code is not part of the repository). The spec names it (section 4.2):
  the standard encoded-polyline algorithm, signed values delta-encoded as base-32
  characters, zig-zag encoded, with 5 decimal digits of precision. \<open>decode_value\<close> reads
  one value from the front of the string and returns it with the rest of the string,
  \<open>None\<close> when the string ends inside a value (the package raises \<^verbatim>\<open>IndexError\<close>);
  \<open>decode_loop\<close> reads pairs of values until the string is used up. A coordinate is
  the exact quotient by \<open>10^5\<close>.
\<close>

fun decode_value :: "string \<Rightarrow> int \<Rightarrow> nat \<Rightarrow> (int \<times> string) option" where
  "decode_value [] result shift = None"
| "decode_value (c # cs) result shift =
     (let byte = int (of_char c) - 63;
          result' = or result (push_bit shift (and byte 31))
      in if byte \<ge> 32 then decode_value cs result' (shift + 5)
         else Some (if odd result' then not (drop_bit 1 result') else drop_bit 1 result', cs))"

function decode_loop ::
  "string \<Rightarrow> int \<Rightarrow> int \<Rightarrow> (pyfloat \<times> pyfloat) list \<Rightarrow> (pyfloat \<times> pyfloat) list option" where
  "decode_loop s lat lng coordinates =
     (if s = [] then Some coordinates
      else (case decode_value s 0 0 of
              None \<Rightarrow> None
            | Some (lat_change, s1) \<Rightarrow>
               (case decode_value s1 0 0 of
                  None \<Rightarrow> None
                | Some (lng_change, s2) \<Rightarrow>
                   decode_loop s2 (lat + lat_change) (lng + lng_change)
                     (coordinates @
                        [(Finite (of_int (lat + lat_change) / 100000),
                          Finite (of_int (lng + lng_change) / 100000))]))))"
  by pat_completeness auto

lemma decode_value_shorter:
  "decode_value s r k = Some (v, rest) \<Longrightarrow> length rest < length s"
proof (induction s arbitrary: r k)
  case Nil
  then show ?case by simp
next
  case (Cons c cs)
  show ?case
  proof (cases "int (of_char c) - 63 \<ge> 32")
    case True
    with Cons.prems
    have "decode_value cs (or r (push_bit k (and (int (of_char c) - 63) 31))) (k + 5) = Some (v, rest)"
      by (simp add: Let_def)
    from Cons.IH [OF this] show ?thesis by simp
  next
    case False
    with Cons.prems have "rest = cs"
      by (simp add: Let_def)
    then show ?thesis by simp
  qed
qed

termination decode_loop
proof (relation "measure (\<lambda>(s, lat, lng, coordinates). length s)")
  show "wf (measure (\<lambda>(s, lat, lng, coordinates). length s))"
    by simp
next
  fix s :: string and lat lng :: int and coordinates :: "(pyfloat \<times> pyfloat) list"
    and x2 :: "int \<times> string" and lat_change :: int and s1 :: string
    and x2a :: "int \<times> string" and lng_change :: int and s2 :: string
  assume a: "decode_value s 0 0 = Some x2" "(lat_change, s1) = x2"
    "decode_value s1 0 0 = Some x2a" "(lng_change, s2) = x2a"
  from a have "length s1 < length s" "length s2 < length s1"
    by (auto dest: decode_value_shorter)
  then show "((s2, lat + lat_change, lng + lng_change,
                coordinates @
                  [(Finite (of_int (lat + lat_change) / 100000),
                    Finite (of_int (lng + lng_change) / 100000))]),
               s, lat, lng, coordinates)
             \<in> measure (\<lambda>(s, lat, lng, coordinates). length s)"
    by simp
qed

definition polyline_decode_std :: polyline_decoder where
  "polyline_decode_std expression = decode_loop expression 0 0 []"

section \<open>An environment for the examples\<close>

text \<open>An environment for the examples: three methods, a limit of 100 locations, one
  dataset, and a backend that answers 0 for every point.\<close>

definition example_env :: "unit env" where
  "example_env =
     \<lparr>INTERPOLATION_METHODS = [''nearest'', ''bilinear'', ''cubic''],
      load_config = Inr \<lparr>max_locations_per_request = 100, access_control_allow_origin = Some ''*''\<rparr>,
      load_datasets = Inr [''test-dataset'' \<mapsto> ()],
      backend_get_elevation = (\<lambda>lats lons dataset method. Inr (map (\<lambda>x. Some (Finite 0)) lats)),
      app_debug = False,
      builtin_float = py_float,
      polyline_decode = polyline_decode_std\<rparr>"

section \<open>Notions for stating the properties\<close>

text \<open>The two parts of a location at its first comma: \<^verbatim>\<open>parts[0]\<close> and
  \<^verbatim>\<open>parts[1]\<close> of the loop.\<close>

definition lat_part :: "string \<Rightarrow> string" where
  "lat_part loc = split_char_once (CHR '','') loc ! 0"

definition lon_part :: "string \<Rightarrow> string" where
  "lon_part loc = split_char_once (CHR '','') loc ! 1"

text \<open>The two bounds checks of the loop, \<^verbatim>\<open>LAT_MIN <= lat <= LAT_MAX\<close> and
  \<^verbatim>\<open>LON_MIN <= lon <= LON_MAX\<close>.\<close>

definition in_lat_range :: "pyfloat \<Rightarrow> bool" where
  "in_lat_range x = (float_le (float_of_int LAT_MIN) x \<and> float_le x (float_of_int LAT_MAX))"

definition in_lon_range :: "pyfloat \<Rightarrow> bool" where
  "in_lon_range x = (float_le (float_of_int LON_MIN) x \<and> float_le x (float_of_int LON_MAX))"

text \<open>A location the loop accepts: it has a comma, both parts are numeric and both
  values are within bounds.\<close>

definition valid_segment :: "float_parser \<Rightarrow> string \<Rightarrow> bool" where
  "valid_segment pf loc =
     (CHR '','' \<in> set loc \<and>
      (case pf (lat_part loc) of
         None \<Rightarrow> False
       | Some x \<Rightarrow>
          (case pf (lon_part loc) of
             None \<Rightarrow> False
           | Some y \<Rightarrow> in_lat_range x \<and> in_lon_range y)))"

text \<open>The locations of a query string: \<^verbatim>\<open>locations.strip("|").split("|")\<close>.\<close>

definition segments :: "string \<Rightarrow> string list" where
  "segments locations = split_char (CHR ''|'') (strip_char (CHR ''|'') locations)"

text \<open>What the polyline parser decodes: the string without one leading \<^verbatim>\<open>enc:\<close>.\<close>

definition polyline_payload :: "string \<Rightarrow> string" where
  "polyline_payload locations =
     (if prefix ''enc:'' locations then drop 4 locations else locations)"

section \<open>Auxiliary facts\<close>

declare str_nat.simps [simp del]
declare decode_loop.simps [simp del]
declare bit_length.simps [simp del]

lemma digit_char_values:
  "digit_char 0 = CHR ''0''" "digit_char 1 = CHR ''1''" "digit_char 2 = CHR ''2''"
  "digit_char 3 = CHR ''3''" "digit_char 4 = CHR ''4''" "digit_char 5 = CHR ''5''"
  "digit_char 6 = CHR ''6''" "digit_char 7 = CHR ''7''" "digit_char 8 = CHR ''8''"
  "digit_char 9 = CHR ''9''" "digit_char (Suc 0) = CHR ''1''"
  by (simp_all add: digit_char_def)

lemma str_int_bounds:
  "str_int LAT_MIN = ''-90''" "str_int LAT_MAX = ''90''"
  "str_int LON_MIN = ''-180''" "str_int LON_MAX = ''180''"
  by (simp_all add: str_int_def str_nat.simps digit_char_values
        LAT_MIN_def LAT_MAX_def LON_MIN_def LON_MAX_def)

lemma split_char_not_Nil: "split_char c s \<noteq> []"
  by (induction s) (auto split: list.splits)

lemma segments_not_Nil: "segments s \<noteq> []"
  by (simp add: segments_def split_char_not_Nil)

lemma first_comma_split:
  assumes "CHR '','' \<in> set loc"
  shows "lat_part loc = takeWhile (\<lambda>x. x \<noteq> CHR '','') loc"
    and "lon_part loc = tl (dropWhile (\<lambda>x. x \<noteq> CHR '','') loc)"
    and "loc = lat_part loc @ CHR '','' # lon_part loc"
    and "CHR '','' \<notin> set (lat_part loc)"
proof -
  let ?P = "\<lambda>x. x \<noteq> CHR '',''"
  show a: "lat_part loc = takeWhile ?P loc"
    using assms by (simp add: lat_part_def split_char_once_def)
  show b: "lon_part loc = tl (dropWhile ?P loc)"
    using assms by (simp add: lon_part_def split_char_once_def)
  from assms have ne: "dropWhile ?P loc \<noteq> []"
    by (simp add: dropWhile_eq_Nil_conv)
  then have "hd (dropWhile ?P loc) = CHR '',''"
    using hd_dropWhile [of ?P loc] by simp
  with ne have "dropWhile ?P loc = CHR '','' # tl (dropWhile ?P loc)"
    by (cases "dropWhile ?P loc") auto
  then show "loc = lat_part loc @ CHR '','' # lon_part loc"
    unfolding a b using takeWhile_dropWhile_id [of ?P loc] by simp
  show "CHR '','' \<notin> set (lat_part loc)"
    unfolding a by (auto dest: set_takeWhileD)
qed

text \<open>One turn of the loop on a valid location, and the four ways it stops.\<close>

lemma loop_step_valid:
  assumes "valid_segment pf loc"
  shows "\<exists>x y. pf (lat_part loc) = Some x \<and> pf (lon_part loc) = Some y \<and>
           parse_latlon_loop pf i (loc # rest) lats lons =
             parse_latlon_loop pf (i + 1) rest (lats @ [x]) (lons @ [y])"
  using assms
  by (auto simp: valid_segment_def lat_part_def lon_part_def in_lat_range_def
        in_lon_range_def Let_def split: option.splits)

lemma loop_step_no_comma:
  "CHR '','' \<notin> set loc \<Longrightarrow>
     parse_latlon_loop pf i (loc # rest) lats lons = Inl (ClientError (msg_no_comma loc i))"
  by simp

lemma loop_step_not_numeric:
  "CHR '','' \<in> set loc \<Longrightarrow> pf (lat_part loc) = None \<or> pf (lon_part loc) = None \<Longrightarrow>
     parse_latlon_loop pf i (loc # rest) lats lons = Inl (ClientError (msg_unable loc i))"
  by (auto simp: lat_part_def lon_part_def Let_def split: option.splits)

lemma loop_step_latitude:
  "CHR '','' \<in> set loc \<Longrightarrow> pf (lat_part loc) = Some x \<Longrightarrow> pf (lon_part loc) = Some y \<Longrightarrow>
   \<not> in_lat_range x \<Longrightarrow>
     parse_latlon_loop pf i (loc # rest) lats lons = Inl (ClientError (msg_latitude loc i))"
  by (auto simp: lat_part_def lon_part_def in_lat_range_def Let_def)

lemma loop_step_longitude:
  "CHR '','' \<in> set loc \<Longrightarrow> pf (lat_part loc) = Some x \<Longrightarrow> pf (lon_part loc) = Some y \<Longrightarrow>
   in_lat_range x \<Longrightarrow> \<not> in_lon_range y \<Longrightarrow>
     parse_latlon_loop pf i (loc # rest) lats lons = Inl (ClientError (msg_longitude loc i))"
  by (auto simp: lat_part_def lon_part_def in_lat_range_def in_lon_range_def Let_def)

lemmas loop_simps = parse_latlon_loop.simps(2)

declare parse_latlon_loop.simps(2) [simp del]

text \<open>The loop over a run of valid locations: each adds its pair, in order.\<close>

lemma loop_valid_prefix:
  assumes "\<forall>loc\<in>set pre. valid_segment pf loc"
  shows "\<exists>xs ys. map (\<lambda>loc. pf (lat_part loc)) pre = map Some xs \<and>
                 map (\<lambda>loc. pf (lon_part loc)) pre = map Some ys \<and>
                 parse_latlon_loop pf i (pre @ rest) lats lons =
                   parse_latlon_loop pf (i + length pre) rest (lats @ xs) (lons @ ys)"
  using assms
proof (induction pre arbitrary: i lats lons)
  case Nil
  show ?case by (rule exI [of _ "[]"], rule exI [of _ "[]"]) simp
next
  case (Cons loc pre)
  from Cons.prems have v: "valid_segment pf loc" and vs: "\<forall>l\<in>set pre. valid_segment pf l"
    by simp_all
  from loop_step_valid [OF v, of i "pre @ rest" lats lons]
  obtain x y where x: "pf (lat_part loc) = Some x" and y: "pf (lon_part loc) = Some y"
    and step: "parse_latlon_loop pf i (loc # pre @ rest) lats lons =
                 parse_latlon_loop pf (i + 1) (pre @ rest) (lats @ [x]) (lons @ [y])"
    by blast
  from Cons.IH [OF vs, of "i + 1" "lats @ [x]" "lons @ [y]"]
  obtain xs ys where xs: "map (\<lambda>loc. pf (lat_part loc)) pre = map Some xs"
    and ys: "map (\<lambda>loc. pf (lon_part loc)) pre = map Some ys"
    and run: "parse_latlon_loop pf (i + 1) (pre @ rest) (lats @ [x]) (lons @ [y]) =
                parse_latlon_loop pf (i + 1 + length pre) rest ((lats @ [x]) @ xs) ((lons @ [y]) @ ys)"
    by blast
  from step run
  have "parse_latlon_loop pf i ((loc # pre) @ rest) lats lons =
          parse_latlon_loop pf (i + length (loc # pre)) rest (lats @ x # xs) (lons @ y # ys)"
    by simp
  with x y xs ys show ?case
    by (intro exI [of _ "x # xs"] exI [of _ "y # ys"]) simp
qed

text \<open>A successful loop has seen only valid locations.\<close>

lemma loop_Inr_valid:
  "parse_latlon_loop pf i locs lats lons = Inr r \<Longrightarrow> \<forall>loc\<in>set locs. valid_segment pf loc"
proof (induction locs arbitrary: i lats lons)
  case Nil
  then show ?case by simp
next
  case (Cons loc locs)
  from Cons.prems have v: "valid_segment pf loc"
    by (auto simp: loop_simps valid_segment_def lat_part_def lon_part_def in_lat_range_def
          in_lon_range_def Let_def split: if_splits option.splits)
  from loop_step_valid [OF v, of i locs lats lons] Cons.prems
  obtain x y where "parse_latlon_loop pf (i + 1) locs (lats @ [x]) (lons @ [y]) = Inr r"
    by auto
  from Cons.IH [OF this] v show ?case by simp
qed

text \<open>Every failure of the loop is a \<^verbatim>\<open>ClientError\<close> about one location.\<close>

lemma loop_Inl:
  "parse_latlon_loop pf i locs lats lons = Inl e \<Longrightarrow>
     \<exists>loc k rest. e = ClientError (msg_unable loc k @ rest)"
proof (induction locs arbitrary: i lats lons)
  case Nil
  then show ?case by simp
next
  case (Cons loc locs)
  show ?case
  proof (cases "valid_segment pf loc")
    case True
    from loop_step_valid [OF True, of i locs lats lons] Cons.prems
    obtain x y where "parse_latlon_loop pf (i + 1) locs (lats @ [x]) (lons @ [y]) = Inl e"
      by auto
    from Cons.IH [OF this] show ?thesis .
  next
    case False
    with Cons.prems have "e = ClientError (msg_no_comma loc i) \<or> e = ClientError (msg_unable loc i)
        \<or> e = ClientError (msg_latitude loc i) \<or> e = ClientError (msg_longitude loc i)"
      by (auto simp: loop_simps valid_segment_def lat_part_def lon_part_def in_lat_range_def
            in_lon_range_def Let_def split: if_splits option.splits)
    then show ?thesis
      unfolding msg_no_comma_def msg_latitude_def msg_longitude_def
      by (metis append_Nil2)
  qed
qed

lemma parse_latlon_locations_unfold:
  "parse_latlon_locations pf s max_n =
     (if int (length (segments s)) > max_n
      then Inl (ClientError (msg_too_many (int (length (segments s))) max_n))
      else parse_latlon_loop pf 0 (segments s) [] [])"
  by (simp add: parse_latlon_locations_def segments_def Let_def)

lemma parse_polyline_locations_unfold:
  "parse_polyline_locations decode s max_n =
     (case decode (polyline_payload s) of
        None \<Rightarrow> Inl (ClientError msg_polyline)
      | Some latlons \<Rightarrow>
         if int (length latlons) > max_n
         then Inl (ClientError (msg_too_many (int (length latlons)) max_n))
         else Inr (map fst latlons, map snd latlons))"
proof -
  have "(if s \<noteq> [] \<and> prefix ''enc:'' s then drop 4 s else s) = polyline_payload s"
    by (auto simp: polyline_payload_def)
  then show ?thesis
    by (simp add: parse_polyline_locations_def Let_def split: option.splits)
qed

lemma polyline_decode_std_Nil: "polyline_decode_std [] = Some []"
  by (simp add: polyline_decode_std_def decode_loop.simps)

section \<open>The dispatch between the two parsers\<close>

text \<open>
  Claim C7. For a non-empty raw locations string the parser is chosen by the presence of
  a comma alone: with a comma the string goes to the delimited-pairs parser, without one
  to the polyline parser, whatever else it holds.
\<close>

theorem dispatch_on_comma:
  "s \<noteq> [] \<Longrightarrow>
     parse_locations pf decode (Some s) max_n =
       (if CHR '','' \<in> set s then parse_latlon_locations pf s max_n
        else parse_polyline_locations decode s max_n)"
  by (simp add: parse_locations_def)

theorem dispatch_on_comma_witness:
  "''1,2'' \<noteq> [] \<and> ''enc:'' \<noteq> [] \<and>
   parse_locations py_float polyline_decode_std (Some ''1,2'') 5 =
     parse_latlon_locations py_float ''1,2'' 5 \<and>
   parse_locations py_float polyline_decode_std (Some ''enc:'') 5 =
     parse_polyline_locations polyline_decode_std ''enc:'' 5"
  using dispatch_on_comma [of "''1,2''" py_float polyline_decode_std 5]
    dispatch_on_comma [of "''enc:''" py_float polyline_decode_std 5]
  by simp

section \<open>The size of a parsed batch\<close>

text \<open>
  Claim C1 says that no successful parse yields an empty batch. The guard of
  \<^verbatim>\<open>_parse_locations\<close> rejects the empty and the absent string, but the polyline
  parser removes the prefix \<^verbatim>\<open>enc:\<close> after that guard: for the raw string
  \<^verbatim>\<open>enc:\<close> it decodes the empty string, and with a decoder that reads no point
  from the empty string (the standard one does) and a limit that is not negative the
  parse succeeds with no location at all.
\<close>

theorem enc_prefix_alone_parses_to_empty_batch:
  "decode [] = Some [] \<Longrightarrow> 0 \<le> max_n \<Longrightarrow>
     parse_locations pf decode (Some ''enc:'') max_n = Inr ([], [])"
  by (simp add: parse_locations_def parse_polyline_locations_unfold polyline_payload_def)

theorem enc_prefix_alone_parses_to_empty_batch_witness:
  "polyline_decode_std [] = Some [] \<and> (0::int) \<le> 100 \<and>
   parse_locations py_float polyline_decode_std (Some ''enc:'') 100 = Inr ([], [])"
  using enc_prefix_alone_parses_to_empty_batch [of polyline_decode_std 100 py_float]
    polyline_decode_std_Nil
  by simp

text \<open>What does hold of the batch: the empty and the absent string are refused, a
  batch is never longer than the limit, and the delimited-pairs parser never returns an
  empty one.\<close>

lemma parse_locations_empty:
  "parse_locations pf decode None max_n = Inl (ClientError msg_no_locations)"
  "parse_locations pf decode (Some []) max_n = Inl (ClientError msg_no_locations)"
  by (simp_all add: parse_locations_def)

lemma parse_latlon_locations_Inr:
  assumes "parse_latlon_locations pf s max_n = Inr (lats, lons)"
  shows "int (length (segments s)) \<le> max_n"
    and "\<forall>loc\<in>set (segments s). valid_segment pf loc"
    and "map (\<lambda>loc. pf (lat_part loc)) (segments s) = map Some lats"
    and "map (\<lambda>loc. pf (lon_part loc)) (segments s) = map Some lons"
proof -
  from assms show le: "int (length (segments s)) \<le> max_n"
    by (simp add: parse_latlon_locations_unfold split: if_splits)
  with assms have run: "parse_latlon_loop pf 0 (segments s) [] [] = Inr (lats, lons)"
    by (simp add: parse_latlon_locations_unfold)
  then show v: "\<forall>loc\<in>set (segments s). valid_segment pf loc"
    by (rule loop_Inr_valid)
  from loop_valid_prefix [OF v, of 0 "[]" "[]" "[]"] run
  show "map (\<lambda>loc. pf (lat_part loc)) (segments s) = map Some lats"
    and "map (\<lambda>loc. pf (lon_part loc)) (segments s) = map Some lons"
    by auto
qed

lemma parse_latlon_locations_length:
  assumes "parse_latlon_locations pf s max_n = Inr (lats, lons)"
  shows "length lats = length (segments s)" and "length lons = length (segments s)"
    and "1 \<le> length lats" and "int (length lats) \<le> max_n"
proof -
  from parse_latlon_locations_Inr(3) [OF assms]
  have "length (map (\<lambda>loc. pf (lat_part loc)) (segments s)) = length (map Some lats)"
    by simp
  then show a: "length lats = length (segments s)" by simp
  from parse_latlon_locations_Inr(4) [OF assms]
  have "length (map (\<lambda>loc. pf (lon_part loc)) (segments s)) = length (map Some lons)"
    by simp
  then show "length lons = length (segments s)" by simp
  from a segments_not_Nil [of s] show "1 \<le> length lats"
    by (cases "segments s") auto
  from a parse_latlon_locations_Inr(1) [OF assms] show "int (length lats) \<le> max_n"
    by simp
qed

lemma parse_polyline_locations_Inr:
  assumes "parse_polyline_locations decode s max_n = Inr (lats, lons)"
  shows "\<exists>latlons. decode (polyline_payload s) = Some latlons \<and> lats = map fst latlons \<and>
           lons = map snd latlons \<and> int (length latlons) \<le> max_n"
  using assms
  by (auto simp: parse_polyline_locations_unfold split: option.splits if_splits)

lemma parse_locations_length_le:
  assumes "parse_locations pf decode raw max_n = Inr (lats, lons)"
  shows "int (length lats) \<le> max_n"
proof (cases raw)
  case None
  with assms show ?thesis by (simp add: parse_locations_def)
next
  case (Some s)
  show ?thesis
  proof (cases "CHR '','' \<in> set s")
    case True
    with assms Some have "parse_latlon_locations pf s max_n = Inr (lats, lons)"
      by (simp add: parse_locations_def split: if_splits)
    then show ?thesis by (rule parse_latlon_locations_length(4))
  next
    case False
    with assms Some have "parse_polyline_locations decode s max_n = Inr (lats, lons)"
      by (simp add: parse_locations_def split: if_splits)
    from parse_polyline_locations_Inr [OF this] show ?thesis by auto
  qed
qed

section \<open>The polyline parser\<close>

lemma polyline_payload_enc: "polyline_payload (''enc:'' @ s) = s"
  by (simp add: polyline_payload_def)

lemma decode_std_examples:
  "polyline_decode_std ''_'' = None"
  "polyline_decode_std ''_mljP_qvoa@'' = Some [(Finite 91, Finite 181)]"
  "polyline_decode_std ''_p~iF~ps|U'' = Some [(Finite (77 / 2), Finite (- (601 / 5)))]"
  by (simp_all add: polyline_decode_std_def decode_loop.simps Let_def)

text \<open>
  Claim C3. The polyline parser removes one leading \<^verbatim>\<open>enc:\<close>, if there is one, and
  decodes the rest. When the decoder fails, the error is the one fixed message, with no
  position in it. When it succeeds, only the number of points is checked: the decoded
  points are returned as they are, whatever their values, also outside the geographic
  bounds (the witness decodes the point (91, 181)).
\<close>

theorem polyline_parser_outcomes:
  "polyline_payload (''enc:'' @ s) = s \<and>
   (\<not> prefix ''enc:'' s \<longrightarrow> polyline_payload s = s) \<and>
   (decode (polyline_payload locations) = None \<longrightarrow>
      parse_polyline_locations decode locations max_n =
        Inl (ClientError ''Unable to parse locations as polyline.'')) \<and>
   (decode (polyline_payload locations) = Some latlons \<and> int (length latlons) \<le> max_n \<longrightarrow>
      parse_polyline_locations decode locations max_n =
        Inr (map fst latlons, map snd latlons)) \<and>
   (decode (polyline_payload locations) = Some latlons \<and> int (length latlons) > max_n \<longrightarrow>
      parse_polyline_locations decode locations max_n =
        Inl (ClientError (msg_too_many (int (length latlons)) max_n)))"
  by (simp add: parse_polyline_locations_unfold polyline_payload_enc msg_polyline_def)
     (simp add: polyline_payload_def)

theorem polyline_parser_outcomes_witness:
  "polyline_payload ''enc:enc:_mljP_qvoa@'' = ''enc:_mljP_qvoa@'' \<and>
   polyline_payload ''_mljP_qvoa@'' = ''_mljP_qvoa@'' \<and>
   parse_polyline_locations polyline_decode_std ''enc:_'' 100 =
     Inl (ClientError ''Unable to parse locations as polyline.'') \<and>
   \<not> in_lat_range (Finite 91) \<and> \<not> in_lon_range (Finite 181) \<and>
   parse_polyline_locations polyline_decode_std ''enc:_mljP_qvoa@'' 1 =
     Inr ([Finite 91], [Finite 181]) \<and>
   parse_polyline_locations polyline_decode_std ''_mljP_qvoa@'' 0 =
     Inl (ClientError ''Too many locations provided (1), the limit is 0.'')"
proof -
  have p: "polyline_payload ''enc:_'' = ''_''"
    "polyline_payload ''enc:_mljP_qvoa@'' = ''_mljP_qvoa@''"
    "polyline_payload ''_mljP_qvoa@'' = ''_mljP_qvoa@''"
    by (simp_all add: polyline_payload_def)
  have m: "msg_too_many 1 0 = ''Too many locations provided (1), the limit is 0.''"
    by (simp add: msg_too_many_def str_int_def str_nat.simps digit_char_values)
  have r: "\<not> in_lat_range (Finite 91)" "\<not> in_lon_range (Finite 181)"
    by (simp_all add: in_lat_range_def in_lon_range_def float_of_int_def LAT_MAX_def LON_MAX_def)
  show ?thesis
    using polyline_parser_outcomes [where s = "''enc:_mljP_qvoa@''"
        and decode = polyline_decode_std and locations = "''enc:_''" and max_n = 100
        and latlons = "[]"]
      polyline_parser_outcomes [where s = "''_mljP_qvoa@''"
        and decode = polyline_decode_std and locations = "''enc:_mljP_qvoa@''" and max_n = 1
        and latlons = "[(Finite 91, Finite 181)]"]
      polyline_parser_outcomes [where s = "''_mljP_qvoa@''"
        and decode = polyline_decode_std and locations = "''_mljP_qvoa@''" and max_n = 0
        and latlons = "[(Finite 91, Finite 181)]"]
    by (simp add: p m r decode_std_examples)
qed

section \<open>The size check\<close>

lemma loop_never_too_many:
  "parse_latlon_loop pf i locs lats lons \<noteq> Inl (ClientError (msg_too_many n m))"
proof
  assume "parse_latlon_loop pf i locs lats lons = Inl (ClientError (msg_too_many n m))"
  from loop_Inl [OF this] obtain loc k rest where "msg_too_many n m = msg_unable loc k @ rest"
    by auto
  then have "hd (msg_too_many n m) = hd (msg_unable loc k @ rest)"
    by simp
  then show False
    by (simp add: msg_too_many_def msg_unable_def)
qed

text \<open>
  Claim C4. In both parsers a batch of more than \<open>max_n\<close> locations fails with the
  message that cites the count and the limit, and a batch of at most \<open>max_n\<close>
  (exactly \<open>max_n\<close> included) passes the check. In the delimited-pairs parser the
  count is the number of raw segments and the check comes first: over the limit the
  outcome does not depend on the float parser or on what the segments hold, and within it
  the outcome is that of the loop, which never reports too many locations.
\<close>

theorem size_check:
  "(int (length (segments s)) > max_n \<longrightarrow>
      parse_latlon_locations pf s max_n =
        Inl (ClientError (''Too many locations provided ('' @ str_int (int (length (segments s))) @
                          ''), the limit is '' @ str_int max_n @ ''.''))) \<and>
   (int (length (segments s)) \<le> max_n \<longrightarrow>
      parse_latlon_locations pf s max_n = parse_latlon_loop pf 0 (segments s) [] [] \<and>
      (\<forall>n m. parse_latlon_locations pf s max_n \<noteq> Inl (ClientError (msg_too_many n m)))) \<and>
   (decode (polyline_payload s) = Some latlons \<and> int (length latlons) > max_n \<longrightarrow>
      parse_polyline_locations decode s max_n =
        Inl (ClientError (''Too many locations provided ('' @ str_int (int (length latlons)) @
                          ''), the limit is '' @ str_int max_n @ ''.''))) \<and>
   (decode (polyline_payload s) = Some latlons \<and> int (length latlons) \<le> max_n \<longrightarrow>
      parse_polyline_locations decode s max_n = Inr (map fst latlons, map snd latlons))"
proof -
  have msg: "\<And>n m. ''Too many locations provided ('' @ str_int n @
                 ''), the limit is '' @ str_int m @ ''.'' = msg_too_many n m"
    by (simp add: msg_too_many_def)
  show ?thesis
    unfolding msg
    by (simp add: parse_latlon_locations_unfold parse_polyline_locations_unfold
          loop_never_too_many)
qed

theorem size_check_witness:
  "parse_latlon_locations py_float ''1,2|3,4'' 1 =
     Inl (ClientError ''Too many locations provided (2), the limit is 1.'') \<and>
   parse_latlon_locations (\<lambda>s. None) ''1,2|3,4'' 1 =
     Inl (ClientError ''Too many locations provided (2), the limit is 1.'') \<and>
   parse_latlon_locations py_float ''1,2|3,4'' 2 =
     parse_latlon_loop py_float 0 [''1,2'', ''3,4''] [] [] \<and>
   parse_polyline_locations polyline_decode_std ''_p~iF~ps|U'' 0 =
     Inl (ClientError ''Too many locations provided (1), the limit is 0.'') \<and>
   parse_polyline_locations polyline_decode_std ''_p~iF~ps|U'' 1 =
     Inr ([Finite (77 / 2)], [Finite (- (601 / 5))])"
proof -
  have s: "segments ''1,2|3,4'' = [''1,2'', ''3,4'']"
    by (simp add: segments_def strip_char_def)
  have p: "polyline_payload ''_p~iF~ps|U'' = ''_p~iF~ps|U''"
    by (simp add: polyline_payload_def)
  have d: "str_int 0 = ''0''" "str_int 1 = ''1''" "str_int 2 = ''2''"
    by (simp_all add: str_int_def str_nat.simps digit_char_values)
  show ?thesis
    using size_check [where s = "''1,2|3,4''" and max_n = 1 and pf = py_float
        and decode = polyline_decode_std and latlons = "[]"]
      size_check [where s = "''1,2|3,4''" and max_n = 1 and pf = "\<lambda>s. None"
        and decode = polyline_decode_std and latlons = "[]"]
      size_check [where s = "''1,2|3,4''" and max_n = 2 and pf = py_float
        and decode = polyline_decode_std and latlons = "[]"]
      size_check [where s = "''_p~iF~ps|U''" and max_n = 0 and pf = py_float
        and decode = polyline_decode_std
        and latlons = "[(Finite (77 / 2), Finite (- (601 / 5)))]"]
      size_check [where s = "''_p~iF~ps|U''" and max_n = 1 and pf = py_float
        and decode = polyline_decode_std
        and latlons = "[(Finite (77 / 2), Finite (- (601 / 5)))]"]
    by (simp add: s p d decode_std_examples)
qed

section \<open>Latitudes and longitudes stay paired\<close>

lemma map_Some_nth:
  "map f xs = map Some ys \<Longrightarrow> i < length ys \<Longrightarrow> f (xs ! i) = Some (ys ! i)"
proof -
  assume a: "map f xs = map Some ys" and i: "i < length ys"
  from a have l: "length xs = length ys"
    by (metis length_map)
  from a have "map f xs ! i = map Some ys ! i" by simp
  with i l show ?thesis by simp
qed

text \<open>
  Claim C10. When the location parser succeeds, the list of latitudes and the list of
  longitudes have the same length, and the entries at one index come from the same input
  point: in the delimited-pairs path from the two parts of the segment at that index, in
  the polyline path from the decoded pair at that index.
\<close>

theorem lats_lons_aligned:
  assumes "parse_locations pf decode raw max_n = Inr (lats, lons)"
  shows "length lats = length lons \<and>
         (\<exists>s. raw = Some s \<and>
            (if CHR '','' \<in> set s
             then length lats = length (segments s) \<and>
                  (\<forall>i<length lats. pf (lat_part (segments s ! i)) = Some (lats ! i) \<and>
                                     pf (lon_part (segments s ! i)) = Some (lons ! i))
             else (\<exists>latlons. decode (polyline_payload s) = Some latlons \<and>
                     length latlons = length lats \<and>
                     (\<forall>i<length lats. latlons ! i = (lats ! i, lons ! i)))))"
proof (cases raw)
  case None
  with assms show ?thesis by (simp add: parse_locations_def)
next
  case (Some s)
  with assms have ne: "s \<noteq> []"
    by (auto simp: parse_locations_def)
  show ?thesis
  proof (cases "CHR '','' \<in> set s")
    case True
    with assms Some ne have r: "parse_latlon_locations pf s max_n = Inr (lats, lons)"
      by (simp add: parse_locations_def)
    note len = parse_latlon_locations_length(1,2) [OF r]
    have "\<forall>i<length lats. pf (lat_part (segments s ! i)) = Some (lats ! i) \<and>
                            pf (lon_part (segments s ! i)) = Some (lons ! i)"
      using map_Some_nth [OF parse_latlon_locations_Inr(3) [OF r]]
        map_Some_nth [OF parse_latlon_locations_Inr(4) [OF r]] len
      by simp
    with len Some True show ?thesis by simp
  next
    case False
    with assms Some ne have r: "parse_polyline_locations decode s max_n = Inr (lats, lons)"
      by (simp add: parse_locations_def)
    from parse_polyline_locations_Inr [OF r]
    obtain latlons where d: "decode (polyline_payload s) = Some latlons"
      and l: "lats = map fst latlons" "lons = map snd latlons"
      by blast
    from l have "length latlons = length lats"
      "\<forall>i<length lats. latlons ! i = (lats ! i, lons ! i)" "length lats = length lons"
      by simp_all
    with d Some False show ?thesis by simp
  qed
qed

theorem lats_lons_aligned_witness:
  "parse_locations py_float polyline_decode_std (Some ''1,2|3,4'') 2 =
     Inr ([Finite 1, Finite 3], [Finite 2, Finite 4]) \<and>
   length [Finite 1, Finite 3] = length [Finite 2, Finite 4] \<and>
   parse_locations py_float polyline_decode_std (Some ''enc:_p~iF~ps|U'') 2 =
     Inr ([Finite (77 / 2)], [Finite (- (601 / 5))]) \<and>
   length [Finite (77 / 2)] = length [Finite (- (601 / 5))]"
proof -
  have f: "py_float ''1'' = Some (Finite 1)" "py_float ''2'' = Some (Finite 2)"
    "py_float ''3'' = Some (Finite 3)" "py_float ''4'' = Some (Finite 4)"
    by (simp_all add: py_float_def floatnumber_def is_space_def is_sign_def to_lower_def
          is_digit_def exponent_value_def digits_value_def binary64_def round_half_even_def
          bit_length.simps Let_def)
  have s: "segments ''1,2|3,4'' = [''1,2'', ''3,4'']"
    by (simp add: segments_def strip_char_def)
  have a: "parse_locations py_float polyline_decode_std (Some ''1,2|3,4'') 2 =
     Inr ([Finite 1, Finite 3], [Finite 2, Finite 4])"
    by (simp add: parse_locations_def parse_latlon_locations_unfold s loop_simps
          split_char_once_def f float_of_int_def LAT_MIN_def LAT_MAX_def LON_MIN_def LON_MAX_def)
  have b: "parse_locations py_float polyline_decode_std (Some ''enc:_p~iF~ps|U'') 2 =
     Inr ([Finite (77 / 2)], [Finite (- (601 / 5))])"
    by (simp add: parse_locations_def parse_polyline_locations_unfold polyline_payload_def
          decode_std_examples)
  from lats_lons_aligned [OF a] lats_lons_aligned [OF b] a b show ?thesis
    by simp
qed

section \<open>The delimited-pairs parser\<close>

text \<open>Joining segments that hold no separator and splitting again gives the segments
  back.\<close>

lemma split_char_no_sep: "c \<notin> set x \<Longrightarrow> split_char c x = [x]"
  by (induction x) auto

lemma split_char_append_sep:
  "c \<notin> set x \<Longrightarrow> split_char c (x @ c # rest) = x # split_char c rest"
  by (induction x) auto

lemma split_char_join:
  "segs \<noteq> [] \<Longrightarrow> \<forall>seg\<in>set segs. c \<notin> set seg \<Longrightarrow> split_char c (join [c] segs) = segs"
proof (induction "[c]" segs rule: join.induct)
  case 1
  then show ?case by simp
next
  case (2 x)
  then show ?case by (simp add: split_char_no_sep)
next
  case (3 x y ys)
  then show ?case by (simp add: split_char_append_sep)
qed

lemma strip_char_id:
  assumes "s \<noteq> []" "hd s \<noteq> c" "last s \<noteq> c"
  shows "strip_char c s = s"
proof -
  from assms have a: "dropWhile (\<lambda>x. x = c) s = s"
    by (cases s) auto
  from assms have "hd (rev s) \<noteq> c" "rev s \<noteq> []"
    by (simp_all add: hd_rev)
  then have "dropWhile (\<lambda>x. x = c) (rev s) = rev s"
    by (cases "rev s") auto
  with a show ?thesis
    by (simp add: strip_char_def)
qed

lemma join_ends:
  "segs \<noteq> [] \<Longrightarrow> \<forall>seg\<in>set segs. seg \<noteq> [] \<Longrightarrow>
     join sep segs \<noteq> [] \<and> hd (join sep segs) = hd (hd segs) \<and>
     last (join sep segs) = last (last segs)"
  by (induction sep segs rule: join.induct) auto

lemma set_join_hd: "set x \<subseteq> set (join sep (x # rest))"
  by (cases rest) auto

lemma segments_join:
  assumes "segs \<noteq> []" and "\<forall>seg\<in>set segs. seg \<noteq> [] \<and> CHR ''|'' \<notin> set seg"
  shows "segments (join ''|'' segs) = segs"
proof -
  from assms have ne: "\<forall>seg\<in>set segs. seg \<noteq> []" and nosep: "\<forall>seg\<in>set segs. CHR ''|'' \<notin> set seg"
    by auto
  note e = join_ends [OF assms(1) ne, of "''|''"]
  from assms have "hd segs \<in> set segs" "last segs \<in> set segs"
    by simp_all
  with assms have "hd (hd segs) \<noteq> CHR ''|''" "last (last segs) \<noteq> CHR ''|''"
    by (metis hd_in_set, metis last_in_set)
  with e have "strip_char (CHR ''|'') (join ''|'' segs) = join ''|'' segs"
    by (intro strip_char_id) simp_all
  with split_char_join [OF assms(1) nosep] show ?thesis
    by (simp add: segments_def)
qed

text \<open>The loop up to the first location that is not valid.\<close>

lemma loop_reaches:
  assumes "k < length locs" and "\<forall>j<k. valid_segment pf (locs ! j)"
  shows "\<exists>xs ys. parse_latlon_loop pf 0 locs [] [] =
           parse_latlon_loop pf k (locs ! k # drop (Suc k) locs) xs ys"
proof -
  from assms have "\<forall>loc\<in>set (take k locs). valid_segment pf loc"
    by (auto simp: in_set_conv_nth)
  from loop_valid_prefix [OF this, of 0 "drop k locs" "[]" "[]"] assms(1)
  show ?thesis
    by (auto simp: Cons_nth_drop_Suc min_def)
qed

lemma loop_all_valid:
  assumes "\<forall>loc\<in>set locs. valid_segment pf loc"
  shows "\<exists>lats lons. parse_latlon_loop pf 0 locs [] [] = Inr (lats, lons) \<and>
           map (\<lambda>loc. pf (lat_part loc)) locs = map Some lats \<and>
           map (\<lambda>loc. pf (lon_part loc)) locs = map Some lons"
  using loop_valid_prefix [OF assms, of 0 "[]" "[]" "[]"] by auto

lemma valid_segment_has_comma: "valid_segment pf loc \<Longrightarrow> CHR '','' \<in> set loc"
  by (simp add: valid_segment_def)

text \<open>
  Claim C6. A valid delimited input \<^verbatim>\<open>lat1,lon1|...|latN,lonN\<close> with \<open>N \<le> max_n\<close>
  (every segment has a comma, both parts are numeric and the values are within bounds)
  parses to exactly \<open>N\<close> points, in the order of the segments, point \<open>i\<close> being the
  float values of the two parts of segment \<open>i\<close>. A segment is split at its first comma:
  the latitude part has no comma and the segment is the latitude part, a comma and the
  longitude part. The first segment that is not valid, when it has no comma, fails with
  the message naming the segment and its position counted from 1.
\<close>

theorem valid_delimited_input:
  "(segs \<noteq> [] \<and> int (length segs) \<le> max_n \<and>
    (\<forall>loc\<in>set segs. CHR ''|'' \<notin> set loc \<and> valid_segment pf loc) \<longrightarrow>
      (\<exists>lats lons.
         parse_locations pf decode (Some (join ''|'' segs)) max_n = Inr (lats, lons) \<and>
         length lats = length segs \<and> length lons = length segs \<and>
         (\<forall>i<length segs. pf (lat_part (segs ! i)) = Some (lats ! i) \<and>
                            pf (lon_part (segs ! i)) = Some (lons ! i)))) \<and>
   (CHR '','' \<in> set loc \<longrightarrow>
      loc = lat_part loc @ '','' @ lon_part loc \<and> CHR '','' \<notin> set (lat_part loc)) \<and>
   (int (length (segments s)) \<le> max_n \<and> k < length (segments s) \<and>
    (\<forall>j<k. valid_segment pf (segments s ! j)) \<and> CHR '','' \<notin> set (segments s ! k) \<longrightarrow>
      parse_latlon_locations pf s max_n =
        Inl (ClientError (''Unable to parse location '' @ quote @ segments s ! k @ quote @
                          '' in position '' @ str_int (int k + 1) @ ''.'' @
                          '' Add locations like lat1,lon1|lat2,lon2.'')))"
proof (intro conjI impI)
  assume a: "segs \<noteq> [] \<and> int (length segs) \<le> max_n \<and>
    (\<forall>loc\<in>set segs. CHR ''|'' \<notin> set loc \<and> valid_segment pf loc)"
  then have valid: "\<forall>loc\<in>set segs. valid_segment pf loc"
    by simp
  then have comma: "\<forall>loc\<in>set segs. CHR '','' \<in> set loc"
    by (auto dest: valid_segment_has_comma)
  with a have "\<forall>seg\<in>set segs. seg \<noteq> [] \<and> CHR ''|'' \<notin> set seg"
    by auto
  with a have seg: "segments (join ''|'' segs) = segs"
    by (simp add: segments_join)
  from a obtain x rest where xr: "segs = x # rest"
    by (cases segs) auto
  with comma have "CHR '','' \<in> set x"
    by simp
  with set_join_hd [of x "''|''" rest] xr have c: "CHR '','' \<in> set (join ''|'' segs)"
    by auto
  then have ne: "join ''|'' segs \<noteq> []"
    by auto
  from loop_all_valid [OF valid]
  obtain lats lons where r: "parse_latlon_loop pf 0 segs [] [] = Inr (lats, lons)"
    and la: "map (\<lambda>loc. pf (lat_part loc)) segs = map Some lats"
    and lo: "map (\<lambda>loc. pf (lon_part loc)) segs = map Some lons"
    by blast
  from la lo have len: "length lats = length segs" "length lons = length segs"
    by (metis length_map)+
  from a r seg c ne
  have "parse_locations pf decode (Some (join ''|'' segs)) max_n = Inr (lats, lons)"
    by (simp add: parse_locations_def parse_latlon_locations_unfold)
  moreover have "\<forall>i<length segs. pf (lat_part (segs ! i)) = Some (lats ! i) \<and>
                            pf (lon_part (segs ! i)) = Some (lons ! i)"
    using map_Some_nth [OF la] map_Some_nth [OF lo] len by simp
  ultimately show "\<exists>lats lons.
         parse_locations pf decode (Some (join ''|'' segs)) max_n = Inr (lats, lons) \<and>
         length lats = length segs \<and> length lons = length segs \<and>
         (\<forall>i<length segs. pf (lat_part (segs ! i)) = Some (lats ! i) \<and>
                            pf (lon_part (segs ! i)) = Some (lons ! i))"
    using len by blast
next
  assume "CHR '','' \<in> set loc"
  from first_comma_split(3) [OF this] show "loc = lat_part loc @ '','' @ lon_part loc"
    by simp
next
  assume "CHR '','' \<in> set loc"
  then show "CHR '','' \<notin> set (lat_part loc)"
    by (rule first_comma_split(4))
next
  assume a: "int (length (segments s)) \<le> max_n \<and> k < length (segments s) \<and>
    (\<forall>j<k. valid_segment pf (segments s ! j)) \<and> CHR '','' \<notin> set (segments s ! k)"
  then have "k < length (segments s)" "\<forall>j<k. valid_segment pf (segments s ! j)"
    by simp_all
  from loop_reaches [OF this] a
  have "parse_latlon_loop pf 0 (segments s) [] [] =
          Inl (ClientError (msg_no_comma (segments s ! k) k))"
    by (auto simp: loop_step_no_comma)
  with a show "parse_latlon_locations pf s max_n =
        Inl (ClientError (''Unable to parse location '' @ quote @ segments s ! k @ quote @
                          '' in position '' @ str_int (int k + 1) @ ''.'' @
                          '' Add locations like lat1,lon1|lat2,lon2.''))"
    by (simp add: parse_latlon_locations_unfold msg_no_comma_def msg_unable_def)
qed

text \<open>The library functions and the helpers on the inputs of the examples.\<close>

lemmas py_float_eval =
  py_float_def floatnumber_def is_space_def is_sign_def to_lower_def is_digit_def
  exponent_value_def digits_value_def binary64_def round_half_even_def bit_length.simps
  Let_def

lemma py_float_examples:
  "py_float ''1'' = Some (Finite 1)" "py_float ''2'' = Some (Finite 2)"
  "py_float ''3'' = Some (Finite 3)" "py_float ''4'' = Some (Finite 4)"
  "py_float ''0'' = Some (Finite 0)" "py_float ''10'' = Some (Finite 10)"
  "py_float ''50'' = Some (Finite 50)" "py_float ''200'' = Some (Finite 200)"
  "py_float ''90.0'' = Some (Finite 90)" "py_float ''-90.0'' = Some (Finite (- 90))"
  "py_float ''180.0'' = Some (Finite 180)" "py_float ''-180.0'' = Some (Finite (- 180))"
  "py_float ''90.0001'' = Some (Finite (3166597006432089 / 35184372088832))"
  "py_float ''180.1'' = Some (Finite (6336705413198643 / 35184372088832))"
  "py_float ''90.000000000000001'' = Some (Finite 90)"
  by (simp_all add: py_float_eval)

lemma in_lat_range_iff: "in_lat_range x \<longleftrightarrow> (\<exists>r. x = Finite r \<and> - 90 \<le> r \<and> r \<le> 90)"
  by (cases x) (simp_all add: in_lat_range_def float_of_int_def LAT_MIN_def LAT_MAX_def)

lemma in_lon_range_iff: "in_lon_range x \<longleftrightarrow> (\<exists>r. x = Finite r \<and> - 180 \<le> r \<and> r \<le> 180)"
  by (cases x) (simp_all add: in_lon_range_def float_of_int_def LON_MIN_def LON_MAX_def)

lemma parts_examples:
  "lat_part ''1,2'' = ''1''" "lon_part ''1,2'' = ''2''"
  "lat_part ''3,4'' = ''3''" "lon_part ''3,4'' = ''4''"
  "lat_part ''10,200'' = ''10''" "lon_part ''10,200'' = ''200''"
  "lat_part ''200,50'' = ''200''" "lon_part ''200,50'' = ''50''"
  "lat_part ''90.0,180.0'' = ''90.0''" "lon_part ''90.0,180.0'' = ''180.0''"
  "lat_part ''-90.0,-180.0'' = ''-90.0''" "lon_part ''-90.0,-180.0'' = ''-180.0''"
  "lat_part ''90.0001,0'' = ''90.0001''" "lon_part ''90.0001,0'' = ''0''"
  "lat_part ''0,180.1'' = ''0''" "lon_part ''0,180.1'' = ''180.1''"
  by (simp_all add: lat_part_def lon_part_def split_char_once_def)

lemma segments_examples:
  "segments ''1,2|3,4'' = [''1,2'', ''3,4'']"
  "segments ''40.7|-74.0,1'' = [''40.7'', ''-74.0,1'']"
  "segments ''10,200'' = [''10,200'']"
  "segments ''200,50'' = [''200,50'']"
  "segments ''90.0,180.0'' = [''90.0,180.0'']"
  "segments ''-90.0,-180.0'' = [''-90.0,-180.0'']"
  "segments ''90.0001,0'' = [''90.0001,0'']"
  "segments ''0,180.1'' = [''0,180.1'']"
  by (simp_all add: segments_def strip_char_def)

lemma valid_examples: "valid_segment py_float ''1,2''" "valid_segment py_float ''3,4''"
  by (simp_all add: valid_segment_def parts_examples py_float_examples in_lat_range_iff
        in_lon_range_iff)

lemma str_int_small: "str_int 0 = ''0''" "str_int 1 = ''1''" "str_int 2 = ''2''"
  by (simp_all add: str_int_def str_nat.simps digit_char_values)

theorem valid_delimited_input_witness:
  "(\<exists>lats lons.
      parse_locations py_float polyline_decode_std (Some ''1,2|3,4'') 2 = Inr (lats, lons) \<and>
      length lats = 2 \<and> length lons = 2 \<and>
      Some (lats ! 0) = Some (Finite 1) \<and> Some (lons ! 0) = Some (Finite 2) \<and>
      Some (lats ! 1) = Some (Finite 3) \<and> Some (lons ! 1) = Some (Finite 4)) \<and>
   ''1,2'' = lat_part ''1,2'' @ '','' @ lon_part ''1,2'' \<and>
   parse_latlon_locations py_float ''40.7|-74.0,1'' 5 =
     Inl (ClientError (''Unable to parse location '' @ quote @ ''40.7'' @ quote @
            '' in position 1. Add locations like lat1,lon1|lat2,lon2.''))"
proof -
  have j: "join ''|'' [''1,2'', ''3,4''] = ''1,2|3,4''"
    by simp
  have h1: "[''1,2'', ''3,4''] \<noteq> [] \<and> int (length [''1,2'', ''3,4'']) \<le> 2 \<and>
    (\<forall>loc\<in>set [''1,2'', ''3,4'']. CHR ''|'' \<notin> set loc \<and> valid_segment py_float loc)"
    by (simp add: valid_examples)
  have h3: "int (length (segments ''40.7|-74.0,1'')) \<le> 5 \<and> 0 < length (segments ''40.7|-74.0,1'') \<and>
    (\<forall>j<0. valid_segment py_float (segments ''40.7|-74.0,1'' ! j)) \<and>
    CHR '','' \<notin> set (segments ''40.7|-74.0,1'' ! 0)"
    by (simp add: segments_examples)
  note t = valid_delimited_input [where segs = "[''1,2'', ''3,4'']" and max_n = 2
      and pf = py_float and decode = polyline_decode_std and loc = "''1,2''"]
  from t h1 obtain lats lons where
    r: "parse_locations py_float polyline_decode_std (Some (join ''|'' [''1,2'', ''3,4''])) 2 =
          Inr (lats, lons)"
    and l: "length lats = length [''1,2'', ''3,4'']" "length lons = length [''1,2'', ''3,4'']"
    and v: "\<forall>i<length [''1,2'', ''3,4''].
              py_float (lat_part ([''1,2'', ''3,4''] ! i)) = Some (lats ! i) \<and>
              py_float (lon_part ([''1,2'', ''3,4''] ! i)) = Some (lons ! i)"
    by blast
  from v [rule_format, of 0] v [rule_format, of 1]
  have "py_float (lat_part ([''1,2'', ''3,4''] ! 0)) = Some (lats ! 0)"
    "py_float (lon_part ([''1,2'', ''3,4''] ! 0)) = Some (lons ! 0)"
    "py_float (lat_part ([''1,2'', ''3,4''] ! 1)) = Some (lats ! 1)"
    "py_float (lon_part ([''1,2'', ''3,4''] ! 1)) = Some (lons ! 1)"
    by simp_all
  then have vals: "Some (lats ! 0) = Some (Finite 1)" "Some (lons ! 0) = Some (Finite 2)"
    "Some (lats ! 1) = Some (Finite 3)" "Some (lons ! 1) = Some (Finite 4)"
    by (simp_all add: parts_examples py_float_examples)
  from r l vals have first: "\<exists>lats lons.
      parse_locations py_float polyline_decode_std (Some ''1,2|3,4'') 2 = Inr (lats, lons) \<and>
      length lats = 2 \<and> length lons = 2 \<and>
      Some (lats ! 0) = Some (Finite 1) \<and> Some (lons ! 0) = Some (Finite 2) \<and>
      Some (lats ! 1) = Some (Finite 3) \<and> Some (lons ! 1) = Some (Finite 4)"
    unfolding j by (intro exI [of _ lats] exI [of _ lons]) simp
  from t have second: "''1,2'' = lat_part ''1,2'' @ '','' @ lon_part ''1,2''"
    by simp
  from valid_delimited_input [where s = "''40.7|-74.0,1''" and max_n = 5 and k = 0
      and pf = py_float] h3
  have third: "parse_latlon_locations py_float ''40.7|-74.0,1'' 5 =
     Inl (ClientError (''Unable to parse location '' @ quote @ ''40.7'' @ quote @
            '' in position 1. Add locations like lat1,lon1|lat2,lon2.''))"
    by (simp add: segments_examples str_int_small)
  from first second third show ?thesis by blast
qed


lemmas single_segment_eval =
  parse_latlon_locations_unfold segments_examples loop_simps split_char_once_def
  py_float_examples float_of_int_def LAT_MIN_def LAT_MAX_def LON_MIN_def LON_MAX_def
  msg_latitude_def msg_longitude_def msg_unable_def str_int_def str_nat.simps digit_char_values

section \<open>Out-of-range errors\<close>

text \<open>
  Claim C2, amended. In the delimited-pairs path, take the first segment that is not
  valid, within the size limit, whose two parts are numeric. When its latitude is outside
  [-90, 90], parsing fails with the message that names the segment, its position counted
  from 1, the latitude bounds, and the hint to give locations in lat,lon order. When its
  latitude is within bounds and its longitude is outside [-180, 180], parsing fails with
  the message that names the segment, its position and the longitude bounds; that message
  ends there, without a hint about the order.
\<close>

theorem out_of_range_errors:
  assumes "int (length (segments s)) \<le> max_n"
    and "k < length (segments s)"
    and "\<forall>j<k. valid_segment pf (segments s ! j)"
    and "loc = segments s ! k"
    and "CHR '','' \<in> set loc"
    and "pf (lat_part loc) = Some x"
    and "pf (lon_part loc) = Some y"
  shows "(\<not> in_lat_range x \<longrightarrow>
            parse_latlon_locations pf s max_n =
              Inl (ClientError (''Unable to parse location '' @ quote @ loc @ quote @
                     '' in position '' @ str_int (int k + 1) @ ''.'' @
                     '' Latitude must be between -90 and 90.'' @
                     '' Provide locations in lat,lon order.''))) \<and>
         (in_lat_range x \<and> \<not> in_lon_range y \<longrightarrow>
            parse_latlon_locations pf s max_n =
              Inl (ClientError (''Unable to parse location '' @ quote @ loc @ quote @
                     '' in position '' @ str_int (int k + 1) @ ''.'' @
                     '' Longitude must be between -180 and 180.'')))"
proof -
  from loop_reaches [OF assms(2,3)] assms(4)
  obtain xs ys where run: "parse_latlon_loop pf 0 (segments s) [] [] =
      parse_latlon_loop pf k (loc # drop (Suc k) (segments s)) xs ys"
    by auto
  have la: "msg_latitude loc k = ''Unable to parse location '' @ quote @ loc @ quote @
                     '' in position '' @ str_int (int k + 1) @ ''.'' @
                     '' Latitude must be between -90 and 90.'' @
                     '' Provide locations in lat,lon order.''"
    by (simp add: msg_latitude_def msg_unable_def str_int_bounds)
  have lo: "msg_longitude loc k = ''Unable to parse location '' @ quote @ loc @ quote @
                     '' in position '' @ str_int (int k + 1) @ ''.'' @
                     '' Longitude must be between -180 and 180.''"
    by (simp add: msg_longitude_def msg_unable_def str_int_bounds)
  show ?thesis
    unfolding la [symmetric] lo [symmetric]
    using assms(1) run loop_step_latitude [OF assms(5,6,7)] loop_step_longitude [OF assms(5,6,7)]
    by (simp add: parse_latlon_locations_unfold)
qed

theorem out_of_range_errors_witness:
  "parse_latlon_locations py_float ''200,50'' 1 =
     Inl (ClientError (''Unable to parse location '' @ quote @ ''200,50'' @ quote @
            '' in position 1. Latitude must be between -90 and 90.'' @
            '' Provide locations in lat,lon order.'')) \<and>
   parse_latlon_locations py_float ''1,2|10,200'' 2 =
     Inl (ClientError (''Unable to parse location '' @ quote @ ''10,200'' @ quote @
            '' in position 2. Longitude must be between -180 and 180.''))"
proof -
  have s: "segments ''1,2|10,200'' = [''1,2'', ''10,200'']"
    by (simp add: segments_def strip_char_def)
  have a: "parse_latlon_locations py_float ''200,50'' 1 =
     Inl (ClientError (''Unable to parse location '' @ quote @ ''200,50'' @ quote @
            '' in position 1. Latitude must be between -90 and 90.'' @
            '' Provide locations in lat,lon order.''))"
    using out_of_range_errors [where s = "''200,50''" and max_n = 1 and k = 0 and pf = py_float
        and loc = "''200,50''" and x = "Finite 200" and y = "Finite 50"]
    by (simp add: segments_examples parts_examples py_float_examples in_lat_range_iff
          str_int_small)
  have b: "parse_latlon_locations py_float ''1,2|10,200'' 2 =
     Inl (ClientError (''Unable to parse location '' @ quote @ ''10,200'' @ quote @
            '' in position 2. Longitude must be between -180 and 180.''))"
    using out_of_range_errors [where s = "''1,2|10,200''" and max_n = 2 and k = 1
        and pf = py_float and loc = "''10,200''" and x = "Finite 10" and y = "Finite 200"]
    by (simp add: s parts_examples py_float_examples in_lat_range_iff in_lon_range_iff
          str_int_small valid_examples)
  from a b show ?thesis by simp
qed

text \<open>
  The claim as stated asks for the hint about lat,lon order in the longitude error too.
  For the location \<^verbatim>\<open>10,200\<close> both parts are numeric and the longitude is out of
  range, and the message the parser raises does not hold the words \<^verbatim>\<open>lat,lon\<close>.
\<close>

theorem longitude_error_carries_no_hint:
  "py_float (lat_part ''10,200'') = Some (Finite 10) \<and>
   py_float (lon_part ''10,200'') = Some (Finite 200) \<and>
   \<not> in_lon_range (Finite 200) \<and>
   parse_latlon_locations py_float ''10,200'' 1 =
     Inl (ClientError (''Unable to parse location '' @ quote @ ''10,200'' @ quote @
            '' in position 1. Longitude must be between -180 and 180.'')) \<and>
   \<not> sublist ''lat,lon''
       (''Unable to parse location '' @ quote @ ''10,200'' @ quote @
        '' in position 1. Longitude must be between -180 and 180.'')"
proof -
  have "parse_latlon_locations py_float ''10,200'' 1 =
     Inl (ClientError (''Unable to parse location '' @ quote @ ''10,200'' @ quote @
            '' in position 1. Longitude must be between -180 and 180.''))"
    by (simp add: parse_latlon_locations_unfold segments_examples loop_simps
          split_char_once_def py_float_examples float_of_int_def LAT_MIN_def LAT_MAX_def
          LON_MIN_def LON_MAX_def msg_longitude_def msg_unable_def str_int_def
          str_nat.simps digit_char_values)
  moreover have "\<not> sublist ''lat,lon''
       (''Unable to parse location '' @ quote @ ''10,200'' @ quote @
        '' in position 1. Longitude must be between -180 and 180.'')"
    by (simp add: quote_def sublist_Cons_right)
  ultimately show ?thesis
    by (simp add: parts_examples py_float_examples in_lon_range_iff)
qed

section \<open>The bounds are inclusive\<close>

text \<open>The loop up to a location, with the number of points collected before it.\<close>

lemma loop_reaches_length:
  assumes "k < length locs" and "\<forall>j<k. valid_segment pf (locs ! j)"
  shows "\<exists>xs ys. length xs = k \<and> length ys = k \<and>
           parse_latlon_loop pf 0 locs [] [] =
             parse_latlon_loop pf k (locs ! k # drop (Suc k) locs) xs ys"
proof -
  from assms have "\<forall>loc\<in>set (take k locs). valid_segment pf loc"
    by (auto simp: in_set_conv_nth)
  from loop_valid_prefix [OF this, of 0 "drop k locs" "[]" "[]"]
  obtain xs ys where m: "map (\<lambda>loc. pf (lat_part loc)) (take k locs) = map Some xs"
      "map (\<lambda>loc. pf (lon_part loc)) (take k locs) = map Some ys"
    and run: "parse_latlon_loop pf 0 (take k locs @ drop k locs) [] [] =
       parse_latlon_loop pf (0 + length (take k locs)) (drop k locs) ([] @ xs) ([] @ ys)"
    by blast
  from m have "length (take k locs) = length xs" "length (take k locs) = length ys"
    by (metis length_map)+
  with assms(1) have "length xs = k" "length ys = k"
    by simp_all
  moreover from run assms(1)
  have "parse_latlon_loop pf 0 locs [] [] =
          parse_latlon_loop pf k (locs ! k # drop (Suc k) locs) xs ys"
    by (simp add: Cons_nth_drop_Suc min_def)
  ultimately show ?thesis by blast
qed

text \<open>
  Claim C5. The geographic bounds of the delimited-pairs parser are inclusive. Take a
  location the loop reaches (segment count within the limit, earlier locations valid)
  whose parts are the finite numbers \<open>r\<close> and \<open>q\<close>. When \<open>r\<close> is below -90 or above 90
  the parser fails with the latitude message, whatever the longitude is. When \<open>r\<close> is
  within [-90, 90], the ends included, and \<open>q\<close> is below -180 or above 180, it fails
  with the longitude message. When \<open>r\<close> is within [-90, 90] and \<open>q\<close> within [-180, 180],
  the ends included, the location is accepted: if it is the last one, the parse succeeds
  and its point is \<open>(r, q)\<close>. The witness is the list of the claim, with Python's float:
  90.0 with 180.0 and -90.0 with -180.0 are accepted, 90.0001 and 180.1 are rejected, and
  \<^verbatim>\<open>200,50\<close> is rejected with the latitude message.
\<close>

theorem inclusive_bounds:
  assumes "int (length (segments s)) \<le> max_n"
    and "k < length (segments s)"
    and "\<forall>j<k. valid_segment pf (segments s ! j)"
    and "loc = segments s ! k"
    and "CHR '','' \<in> set loc"
    and "pf (lat_part loc) = Some (Finite r)"
    and "pf (lon_part loc) = Some (Finite q)"
  shows "(r < - 90 \<or> 90 < r \<longrightarrow>
            parse_latlon_locations pf s max_n =
              Inl (ClientError (''Unable to parse location '' @ quote @ loc @ quote @
                     '' in position '' @ str_int (int k + 1) @ ''.'' @
                     '' Latitude must be between -90 and 90.'' @
                     '' Provide locations in lat,lon order.''))) \<and>
         (- 90 \<le> r \<and> r \<le> 90 \<and> (q < - 180 \<or> 180 < q) \<longrightarrow>
            parse_latlon_locations pf s max_n =
              Inl (ClientError (''Unable to parse location '' @ quote @ loc @ quote @
                     '' in position '' @ str_int (int k + 1) @ ''.'' @
                     '' Longitude must be between -180 and 180.''))) \<and>
         (- 90 \<le> r \<and> r \<le> 90 \<and> - 180 \<le> q \<and> q \<le> 180 \<and> Suc k = length (segments s) \<longrightarrow>
            (\<exists>lats lons.
               parse_latlon_locations pf s max_n = Inr (lats @ [Finite r], lons @ [Finite q]) \<and>
               length lats = k \<and> length lons = k))"
proof -
  from loop_reaches_length [OF assms(2,3)] assms(4)
  obtain xs ys where len: "length xs = k" "length ys = k"
    and run: "parse_latlon_loop pf 0 (segments s) [] [] =
      parse_latlon_loop pf k (loc # drop (Suc k) (segments s)) xs ys"
    by auto
  have la: "msg_latitude loc k = ''Unable to parse location '' @ quote @ loc @ quote @
                     '' in position '' @ str_int (int k + 1) @ ''.'' @
                     '' Latitude must be between -90 and 90.'' @
                     '' Provide locations in lat,lon order.''"
    by (simp add: msg_latitude_def msg_unable_def str_int_bounds)
  have lo: "msg_longitude loc k = ''Unable to parse location '' @ quote @ loc @ quote @
                     '' in position '' @ str_int (int k + 1) @ ''.'' @
                     '' Longitude must be between -180 and 180.''"
    by (simp add: msg_longitude_def msg_unable_def str_int_bounds)
  have lat_out: "r < - 90 \<or> 90 < r \<Longrightarrow>
      parse_latlon_locations pf s max_n = Inl (ClientError (msg_latitude loc k))"
  proof -
    assume "r < - 90 \<or> 90 < r"
    then have "\<not> in_lat_range (Finite r)"
      by (auto simp: in_lat_range_iff)
    from loop_step_latitude [OF assms(5,6,7) this] run assms(1) show ?thesis
      by (simp add: parse_latlon_locations_unfold)
  qed
  have lon_out: "- 90 \<le> r \<and> r \<le> 90 \<and> (q < - 180 \<or> 180 < q) \<Longrightarrow>
      parse_latlon_locations pf s max_n = Inl (ClientError (msg_longitude loc k))"
  proof -
    assume a: "- 90 \<le> r \<and> r \<le> 90 \<and> (q < - 180 \<or> 180 < q)"
    then have "in_lat_range (Finite r)" "\<not> in_lon_range (Finite q)"
      by (auto simp: in_lat_range_iff in_lon_range_iff)
    from loop_step_longitude [OF assms(5,6,7) this] run assms(1) show ?thesis
      by (simp add: parse_latlon_locations_unfold)
  qed
  have accepted: "- 90 \<le> r \<and> r \<le> 90 \<and> - 180 \<le> q \<and> q \<le> 180 \<and> Suc k = length (segments s) \<Longrightarrow>
      parse_latlon_locations pf s max_n = Inr (xs @ [Finite r], ys @ [Finite q])"
  proof -
    assume a: "- 90 \<le> r \<and> r \<le> 90 \<and> - 180 \<le> q \<and> q \<le> 180 \<and> Suc k = length (segments s)"
    then have "valid_segment pf loc"
      using assms(5,6,7) by (simp add: valid_segment_def in_lat_range_iff in_lon_range_iff)
    from loop_step_valid [OF this, of k "[]" xs ys] assms(6,7)
    have "parse_latlon_loop pf k [loc] xs ys = Inr (xs @ [Finite r], ys @ [Finite q])"
      by auto
    with a run assms(1) show ?thesis
      by (simp add: parse_latlon_locations_unfold)
  qed
  show ?thesis
    unfolding la [symmetric] lo [symmetric]
    using lat_out lon_out accepted len by blast
qed


theorem inclusive_bounds_witness:
  "parse_latlon_locations py_float ''90.0,180.0'' 1 = Inr ([Finite 90], [Finite 180]) \<and>
   parse_latlon_locations py_float ''-90.0,-180.0'' 1 = Inr ([Finite (- 90)], [Finite (- 180)]) \<and>
   parse_latlon_locations py_float ''90.0001,0'' 1 =
     Inl (ClientError (''Unable to parse location '' @ quote @ ''90.0001,0'' @ quote @
            '' in position 1. Latitude must be between -90 and 90.'' @
            '' Provide locations in lat,lon order.'')) \<and>
   parse_latlon_locations py_float ''0,180.1'' 1 =
     Inl (ClientError (''Unable to parse location '' @ quote @ ''0,180.1'' @ quote @
            '' in position 1. Longitude must be between -180 and 180.'')) \<and>
   parse_latlon_locations py_float ''200,50'' 1 =
     Inl (ClientError (''Unable to parse location '' @ quote @ ''200,50'' @ quote @
            '' in position 1. Latitude must be between -90 and 90.'' @
            '' Provide locations in lat,lon order.''))"
proof -
  have a: "parse_latlon_locations py_float ''90.0,180.0'' 1 = Inr ([Finite 90], [Finite 180])"
    using inclusive_bounds [where s = "''90.0,180.0''" and max_n = 1 and k = 0 and pf = py_float
        and loc = "''90.0,180.0''" and r = "90" and q = "180"]
    by (auto simp: segments_examples parts_examples py_float_examples)
  have b: "parse_latlon_locations py_float ''-90.0,-180.0'' 1 =
             Inr ([Finite (- 90)], [Finite (- 180)])"
    using inclusive_bounds [where s = "''-90.0,-180.0''" and max_n = 1 and k = 0 and pf = py_float
        and loc = "''-90.0,-180.0''" and r = "- 90" and q = "- 180"]
    by (auto simp: segments_examples parts_examples py_float_examples)
  have c: "parse_latlon_locations py_float ''90.0001,0'' 1 =
     Inl (ClientError (''Unable to parse location '' @ quote @ ''90.0001,0'' @ quote @
            '' in position 1. Latitude must be between -90 and 90.'' @
            '' Provide locations in lat,lon order.''))"
    using inclusive_bounds [where s = "''90.0001,0''" and max_n = 1 and k = 0 and pf = py_float
        and loc = "''90.0001,0''" and r = "3166597006432089 / 35184372088832" and q = "0"]
    by (simp add: segments_examples parts_examples py_float_examples str_int_small)
  have d: "parse_latlon_locations py_float ''0,180.1'' 1 =
     Inl (ClientError (''Unable to parse location '' @ quote @ ''0,180.1'' @ quote @
            '' in position 1. Longitude must be between -180 and 180.''))"
    using inclusive_bounds [where s = "''0,180.1''" and max_n = 1 and k = 0 and pf = py_float
        and loc = "''0,180.1''" and r = "0" and q = "6336705413198643 / 35184372088832"]
    by (simp add: segments_examples parts_examples py_float_examples str_int_small)
  have e: "parse_latlon_locations py_float ''200,50'' 1 =
     Inl (ClientError (''Unable to parse location '' @ quote @ ''200,50'' @ quote @
            '' in position 1. Latitude must be between -90 and 90.'' @
            '' Provide locations in lat,lon order.''))"
    using inclusive_bounds [where s = "''200,50''" and max_n = 1 and k = 0 and pf = py_float
        and loc = "''200,50''" and r = "200" and q = "50"]
    by (simp add: segments_examples parts_examples py_float_examples str_int_small)
  from a b c d e show ?thesis by blast
qed

text \<open>Python rounds a decimal to the nearest float before the bounds are checked: a
  latitude written just above 90 that rounds to 90.0 is accepted.\<close>

lemma rounded_to_the_bound:
  "parse_latlon_locations py_float ''90.000000000000001,0'' 1 = Inr ([Finite 90], [Finite 0])"
proof -
  have s: "segments ''90.000000000000001,0'' = [''90.000000000000001,0'']"
    by (simp add: segments_def strip_char_def)
  show ?thesis
    by (simp add: parse_latlon_locations_unfold s loop_simps split_char_once_def
          py_float_examples float_of_int_def LAT_MIN_def LAT_MAX_def LON_MIN_def LON_MAX_def)
qed

section \<open>The interpolation method\<close>

lemma sublist_join: "m \<in> set ms \<Longrightarrow> sublist m (join sep ms)"
proof (induction sep ms rule: join.induct)
  case (1 sep)
  then show ?case by simp
next
  case (2 sep x)
  then show ?case by simp
next
  case (3 sep x y ys)
  show ?case
  proof (cases "m = x")
    case True
    then show ?thesis by simp
  next
    case False
    with 3 have "sublist m (join sep (y # ys))" by simp
    then show ?thesis by (simp add: sublist_append)
  qed
qed

lemma msg_interpolation_lists:
  "m \<in> set methods \<Longrightarrow> sublist m (msg_interpolation methods x)"
proof -
  assume "m \<in> set methods"
  then have "sublist m (join '', '' methods)"
    by (rule sublist_join)
  then have "sublist m ((''Invalid interpolation method '' @ quote @ x @ quote @
             '' not recognized.'' @ '' Valid interpolation methods: '') @
             join '', '' methods @ ''.'')"
    unfolding sublist_append [of m "_ @ _"] sublist_append [of m "join _ _"] by blast
  then show ?thesis
    by (simp add: msg_interpolation_def)
qed

text \<open>The \<^verbatim>\<open>try\<close> body after the validation of the method: what is left when the
  name is registered.\<close>

lemma try_block_registered:
  assumes "chosen = (case args ''interpolation'' of None \<Rightarrow> ''bilinear'' | Some v \<Rightarrow> v)"
    and "chosen \<in> set (INTERPOLATION_METHODS env)"
  shows "try_block env args name =
     (case load_config env of
        Inl e \<Rightarrow> Inl e
      | Inr cfg \<Rightarrow>
         (case parse_locations (builtin_float env) (polyline_decode env) (args ''locations'')
                 (max_locations_per_request cfg) of
            Inl e \<Rightarrow> Inl e
          | Inr (lats, lons) \<Rightarrow>
             (case get_dataset (load_datasets env) name of
                Inl e \<Rightarrow> Inl e
              | Inr dataset \<Rightarrow>
                 (case backend_get_elevation env lats lons dataset chosen of
                    Inl e \<Rightarrow> Inl e
                  | Inr elevations \<Rightarrow>
                     Inr (Response
                            (Results ''OK''
                               (map (\<lambda>(z, la, lo). Result z la lo)
                                  (zip elevations (zip lats lons))))
                            200)))))"
proof -
  have c: "(case args ''interpolation'' of None \<Rightarrow> DEFAULT_INTERPOLATION_METHOD | Some v \<Rightarrow> v)
             = chosen"
    using assms(1) by (simp add: DEFAULT_INTERPOLATION_METHOD_def split: option.splits)
  show ?thesis
    unfolding try_block_def Let_def c
    using assms(2) by (simp add: validate_interpolation_def)
qed

lemma try_block_unregistered:
  assumes "chosen = (case args ''interpolation'' of None \<Rightarrow> ''bilinear'' | Some v \<Rightarrow> v)"
    and "chosen \<notin> set (INTERPOLATION_METHODS env)"
  shows "try_block env args name =
           Inl (ClientError (msg_interpolation (INTERPOLATION_METHODS env) chosen))"
proof -
  have c: "(case args ''interpolation'' of None \<Rightarrow> DEFAULT_INTERPOLATION_METHOD | Some v \<Rightarrow> v)
             = chosen"
    using assms(1) by (simp add: DEFAULT_INTERPOLATION_METHOD_def split: option.splits)
  show ?thesis
    unfolding try_block_def Let_def c
    using assms(2) by (simp add: validate_interpolation_def)
qed

text \<open>
  Claim C9. The name the handler validates is the \<^verbatim>\<open>interpolation\<close> parameter of the
  query, or \<^verbatim>\<open>bilinear\<close> when the query has none. When that name is not in the
  registry, the \<^verbatim>\<open>try\<close> body raises the validator's error, which names it and lists
  the registered methods, and the handler answers 400 with that message. When it is in
  the registry, it is the name the backend is called with, unchanged, once the
  configuration, the locations and the dataset are there. The validator itself refuses a
  name that is not registered with the message that lists every registered method, and
  returns a registered name as it is.
\<close>

theorem interpolation_validation:
  assumes "chosen = (case args ''interpolation'' of None \<Rightarrow> ''bilinear'' | Some v \<Rightarrow> v)"
  shows
    "(chosen \<notin> set (INTERPOLATION_METHODS env) \<longrightarrow>
        try_block env args name =
          Inl (ClientError (''Invalid interpolation method '' @ quote @ chosen @ quote @
                 '' not recognized.'' @ '' Valid interpolation methods: '' @
                 join '', '' (INTERPOLATION_METHODS env) @ ''.'')) \<and>
        get_elevation env args name =
          Inr (Response (Error ''INVALID_REQUEST''
                 (''Invalid interpolation method '' @ quote @ chosen @ quote @
                  '' not recognized.'' @ '' Valid interpolation methods: '' @
                  join '', '' (INTERPOLATION_METHODS env) @ ''.'')) 400)) \<and>
     (chosen \<in> set (INTERPOLATION_METHODS env) \<longrightarrow>
        (\<forall>cfg lats lons dataset.
           load_config env = Inr cfg \<and>
           parse_locations (builtin_float env) (polyline_decode env) (args ''locations'')
             (max_locations_per_request cfg) = Inr (lats, lons) \<and>
           get_dataset (load_datasets env) name = Inr dataset \<longrightarrow>
             try_block env args name =
               (case backend_get_elevation env lats lons dataset chosen of
                  Inl e \<Rightarrow> Inl e
                | Inr elevations \<Rightarrow>
                   Inr (Response
                          (Results ''OK''
                             (map (\<lambda>(z, la, lo). Result z la lo)
                                (zip elevations (zip lats lons))))
                          200)))) \<and>
     (x \<notin> set methods \<longrightarrow>
        validate_interpolation methods x =
          Inl (ClientError (''Invalid interpolation method '' @ quote @ x @ quote @
                 '' not recognized.'' @ '' Valid interpolation methods: '' @
                 join '', '' methods @ ''.'')) \<and>
        (\<forall>m\<in>set methods.
           sublist m (''Invalid interpolation method '' @ quote @ x @ quote @
                 '' not recognized.'' @ '' Valid interpolation methods: '' @
                 join '', '' methods @ ''.''))) \<and>
     (x \<in> set methods \<longrightarrow> validate_interpolation methods x = Inr x)"
proof -
  have msg: "\<And>ms y. ''Invalid interpolation method '' @ quote @ y @ quote @
               '' not recognized.'' @ '' Valid interpolation methods: '' @
               join '', '' ms @ ''.'' = msg_interpolation ms y"
    by (simp add: msg_interpolation_def)
  have a: "chosen \<notin> set (INTERPOLATION_METHODS env) \<longrightarrow>
        try_block env args name =
          Inl (ClientError (msg_interpolation (INTERPOLATION_METHODS env) chosen)) \<and>
        get_elevation env args name =
          Inr (Response (Error ''INVALID_REQUEST''
                 (msg_interpolation (INTERPOLATION_METHODS env) chosen)) 400)"
    using try_block_unregistered [of chosen args env name] assms
    by (simp add: get_elevation_def)
  have b: "chosen \<in> set (INTERPOLATION_METHODS env) \<longrightarrow>
        (\<forall>cfg lats lons dataset.
           load_config env = Inr cfg \<and>
           parse_locations (builtin_float env) (polyline_decode env) (args ''locations'')
             (max_locations_per_request cfg) = Inr (lats, lons) \<and>
           get_dataset (load_datasets env) name = Inr dataset \<longrightarrow>
             try_block env args name =
               (case backend_get_elevation env lats lons dataset chosen of
                  Inl e \<Rightarrow> Inl e
                | Inr elevations \<Rightarrow>
                   Inr (Response
                          (Results ''OK''
                             (map (\<lambda>(z, la, lo). Result z la lo)
                                (zip elevations (zip lats lons))))
                          200)))"
    using try_block_registered [of chosen args env name] assms
    by auto
  have c: "x \<notin> set methods \<longrightarrow>
        validate_interpolation methods x = Inl (ClientError (msg_interpolation methods x)) \<and>
        (\<forall>m\<in>set methods. sublist m (msg_interpolation methods x))"
    by (simp add: validate_interpolation_def msg_interpolation_lists)
  have d: "x \<in> set methods \<longrightarrow> validate_interpolation methods x = Inr x"
    by (simp add: validate_interpolation_def)
  show ?thesis
    unfolding msg using a b c d by blast
qed


lemma parse_examples:
  "parse_locations py_float polyline_decode_std (Some ''1,2'') 100 = Inr ([Finite 1], [Finite 2])"
  "parse_locations py_float polyline_decode_std (Some ''-10,120'') 100 =
     Inr ([Finite (- 10)], [Finite 120])"
proof -
  have s: "segments ''1,2'' = [''1,2'']" "segments ''-10,120'' = [''-10,120'']"
    by (simp_all add: segments_def strip_char_def)
  have f: "py_float ''-10'' = Some (Finite (- 10))" "py_float ''120'' = Some (Finite 120)"
    by (simp_all add: py_float_eval)
  show "parse_locations py_float polyline_decode_std (Some ''1,2'') 100 =
          Inr ([Finite 1], [Finite 2])"
    by (simp add: parse_locations_def parse_latlon_locations_unfold s loop_simps
          split_char_once_def py_float_examples float_of_int_def LAT_MIN_def LAT_MAX_def
          LON_MIN_def LON_MAX_def)
  show "parse_locations py_float polyline_decode_std (Some ''-10,120'') 100 =
          Inr ([Finite (- 10)], [Finite 120])"
    by (simp add: parse_locations_def parse_latlon_locations_unfold s loop_simps
          split_char_once_def f float_of_int_def LAT_MIN_def LAT_MAX_def
          LON_MIN_def LON_MAX_def)
qed


theorem interpolation_validation_witness:
  "get_elevation example_env [''locations'' \<mapsto> ''-10,120'', ''interpolation'' \<mapsto> ''spline'']
     ''test-dataset'' =
     Inr (Response (Error ''INVALID_REQUEST''
            (''Invalid interpolation method '' @ quote @ ''spline'' @ quote @
             '' not recognized. Valid interpolation methods: nearest, bilinear, cubic.'')) 400) \<and>
   try_block (example_env\<lparr>INTERPOLATION_METHODS := [''nearest'']\<rparr>)
       [''locations'' \<mapsto> ''-10,120''] ''test-dataset'' =
     Inl (ClientError (''Invalid interpolation method '' @ quote @ ''bilinear'' @ quote @
            '' not recognized. Valid interpolation methods: nearest.'')) \<and>
   try_block (example_env\<lparr>backend_get_elevation := (\<lambda>lats lons dataset m. Inl (InputError m))\<rparr>)
       [''locations'' \<mapsto> ''-10,120''] ''test-dataset'' = Inl (InputError ''bilinear'') \<and>
   try_block (example_env\<lparr>backend_get_elevation := (\<lambda>lats lons dataset m. Inl (InputError m))\<rparr>)
       [''locations'' \<mapsto> ''-10,120'', ''interpolation'' \<mapsto> ''cubic''] ''test-dataset'' =
     Inl (InputError ''cubic'') \<and>
   try_block example_env [''locations'' \<mapsto> ''-10,120''] ''test-dataset'' =
     Inr (Response (Results ''OK'' [Result (Some (Finite 0)) (Finite (- 10)) (Finite 120)]) 200) \<and>
   validate_interpolation [''nearest'', ''bilinear'', ''cubic''] ''spline'' =
     Inl (ClientError (''Invalid interpolation method '' @ quote @ ''spline'' @ quote @
            '' not recognized. Valid interpolation methods: nearest, bilinear, cubic.'')) \<and>
   sublist ''nearest'' (''Invalid interpolation method '' @ quote @ ''spline'' @ quote @
            '' not recognized. Valid interpolation methods: nearest, bilinear, cubic.'') \<and>
   sublist ''bilinear'' (''Invalid interpolation method '' @ quote @ ''spline'' @ quote @
            '' not recognized. Valid interpolation methods: nearest, bilinear, cubic.'') \<and>
   sublist ''cubic'' (''Invalid interpolation method '' @ quote @ ''spline'' @ quote @
            '' not recognized. Valid interpolation methods: nearest, bilinear, cubic.'') \<and>
   validate_interpolation [''nearest'', ''bilinear'', ''cubic''] ''cubic'' = Inr ''cubic''"
proof -
  let ?loc = "[''locations'' \<mapsto> ''-10,120'']"
  let ?echo = "example_env\<lparr>backend_get_elevation := (\<lambda>lats lons dataset m. Inl (InputError m))\<rparr>"
  let ?cfg = "\<lparr>max_locations_per_request = 100, access_control_allow_origin = Some ''*''\<rparr>"
  have env: "INTERPOLATION_METHODS example_env = [''nearest'', ''bilinear'', ''cubic'']"
    "load_config example_env = Inr ?cfg" "builtin_float example_env = py_float"
    "polyline_decode example_env = polyline_decode_std"
    "get_dataset (load_datasets example_env) ''test-dataset'' = Inr ()"
    "backend_get_elevation example_env [Finite (- 10)] [Finite 120] () ''bilinear'' =
       Inr [Some (Finite 0)]"
    by (simp_all add: example_env_def get_dataset_def)
  have a: "get_elevation example_env (?loc(''interpolation'' \<mapsto> ''spline'')) ''test-dataset'' =
     Inr (Response (Error ''INVALID_REQUEST''
            (''Invalid interpolation method '' @ quote @ ''spline'' @ quote @
             '' not recognized. Valid interpolation methods: nearest, bilinear, cubic.'')) 400) \<and>
   validate_interpolation [''nearest'', ''bilinear'', ''cubic''] ''spline'' =
     Inl (ClientError (''Invalid interpolation method '' @ quote @ ''spline'' @ quote @
            '' not recognized. Valid interpolation methods: nearest, bilinear, cubic.'')) \<and>
   sublist ''nearest'' (''Invalid interpolation method '' @ quote @ ''spline'' @ quote @
            '' not recognized. Valid interpolation methods: nearest, bilinear, cubic.'') \<and>
   sublist ''bilinear'' (''Invalid interpolation method '' @ quote @ ''spline'' @ quote @
            '' not recognized. Valid interpolation methods: nearest, bilinear, cubic.'') \<and>
   sublist ''cubic'' (''Invalid interpolation method '' @ quote @ ''spline'' @ quote @
            '' not recognized. Valid interpolation methods: nearest, bilinear, cubic.'')"
    using interpolation_validation [where chosen = "''spline''"
        and args = "?loc(''interpolation'' \<mapsto> ''spline'')" and env = example_env
        and name = "''test-dataset''" and x = "''spline''"
        and methods = "[''nearest'', ''bilinear'', ''cubic'']"]
    by (simp add: env)
  have b: "try_block (example_env\<lparr>INTERPOLATION_METHODS := [''nearest'']\<rparr>) ?loc ''test-dataset'' =
     Inl (ClientError (''Invalid interpolation method '' @ quote @ ''bilinear'' @ quote @
            '' not recognized. Valid interpolation methods: nearest.''))"
    using interpolation_validation [where chosen = "''bilinear''" and args = ?loc
        and env = "example_env\<lparr>INTERPOLATION_METHODS := [''nearest'']\<rparr>"
        and name = "''test-dataset''" and x = "''cubic''" and methods = "[''cubic'']"]
    by simp
  have c: "try_block ?echo ?loc ''test-dataset'' = Inl (InputError ''bilinear'')"
    using interpolation_validation [where chosen = "''bilinear''" and args = ?loc
        and env = ?echo and name = "''test-dataset''" and x = "''cubic''"
        and methods = "[''cubic'']"]
    by (simp add: env parse_examples)
  have d: "try_block ?echo (?loc(''interpolation'' \<mapsto> ''cubic'')) ''test-dataset'' =
             Inl (InputError ''cubic'')"
    using interpolation_validation [where chosen = "''cubic''"
        and args = "?loc(''interpolation'' \<mapsto> ''cubic'')"
        and env = ?echo and name = "''test-dataset''" and x = "''cubic''"
        and methods = "[''cubic'']"]
    by (simp add: env parse_examples)
  have e: "try_block example_env ?loc ''test-dataset'' =
     Inr (Response (Results ''OK'' [Result (Some (Finite 0)) (Finite (- 10)) (Finite 120)]) 200)"
    using interpolation_validation [where chosen = "''bilinear''" and args = ?loc
        and env = example_env and name = "''test-dataset''" and x = "''cubic''"
        and methods = "[''cubic'']"]
    by (simp add: env parse_examples)
  have f: "validate_interpolation [''nearest'', ''bilinear'', ''cubic''] ''cubic'' = Inr ''cubic''"
    using interpolation_validation [where chosen = "''bilinear''" and args = ?loc
        and env = example_env and name = "''test-dataset''" and x = "''cubic''"
        and methods = "[''nearest'', ''bilinear'', ''cubic'']"]
    by simp
  from a b c d e f show ?thesis by simp
qed

section \<open>Errors and their outcomes\<close>

lemma parse_locations_Inl:
  assumes "parse_locations pf decode raw max_n = Inl e"
  shows "\<exists>msg. e = ClientError msg"
proof (cases raw)
  case None
  with assms show ?thesis by (auto simp: parse_locations_def)
next
  case (Some s)
  show ?thesis
  proof (cases "s = []")
    case True
    with assms Some show ?thesis by (auto simp: parse_locations_def)
  next
    case False
    show ?thesis
    proof (cases "CHR '','' \<in> set s")
      case True
      with assms Some False have r: "parse_latlon_locations pf s max_n = Inl e"
        by (simp add: parse_locations_def)
      show ?thesis
      proof (cases "int (length (segments s)) > max_n")
        case True
        with r show ?thesis by (auto simp: parse_latlon_locations_unfold)
      next
        case False
        with r have "parse_latlon_loop pf 0 (segments s) [] [] = Inl e"
          by (simp add: parse_latlon_locations_unfold)
        from loop_Inl [OF this] show ?thesis by blast
      qed
    next
      case c: False
      with assms Some False have "parse_polyline_locations decode s max_n = Inl e"
        by (simp add: parse_locations_def)
      then show ?thesis
        by (auto simp: parse_polyline_locations_unfold split: option.splits if_splits)
    qed
  qed
qed

text \<open>What the handler makes of a raise in the \<^verbatim>\<open>try\<close> body, and of its return.\<close>

lemma handler_of_raise:
  "try_block env args name = Inl (ClientError m) \<Longrightarrow>
     get_elevation env args name = Inr (Response (Error ''INVALID_REQUEST'' m) 400)"
  "try_block env args name = Inl (InputError m) \<Longrightarrow>
     get_elevation env args name = Inr (Response (Error ''INVALID_REQUEST'' m) 400)"
  "try_block env args name = Inl (ConfigError m) \<Longrightarrow>
     get_elevation env args name = Inr (Response (Error ''SERVER_ERROR'' m) 500)"
  "try_block env args name = Inl (OtherException m) \<Longrightarrow> \<not> app_debug env \<Longrightarrow>
     get_elevation env args name =
       Inr (Response (Error ''SERVER_ERROR'' ''Server error, please retry request.'') 500)"
  "try_block env args name = Inl (OtherException m) \<Longrightarrow> app_debug env \<Longrightarrow>
     get_elevation env args name = Inl (OtherException m)"
  "try_block env args name = Inr r \<Longrightarrow> get_elevation env args name = Inr r"
  by (simp_all add: get_elevation_def msg_server_error_def)

text \<open>
  The client's faults, step by step through the \<^verbatim>\<open>try\<close> body: an unregistered
  interpolation method, any failure of the location parser (no locations, a segment or a
  polyline that does not parse, too many locations, a value out of range), a dataset name
  that is not configured, and an \<^verbatim>\<open>InputError\<close> of the backend. Each leaves the handler
  as status 400, \<^verbatim>\<open>INVALID_REQUEST\<close> and the message of the error.
\<close>

lemma client_faults_answered_400:
  assumes "chosen = (case args ''interpolation'' of None \<Rightarrow> ''bilinear'' | Some v \<Rightarrow> v)"
  shows "chosen \<notin> set (INTERPOLATION_METHODS env) \<Longrightarrow>
           get_elevation env args name =
             Inr (Response (Error ''INVALID_REQUEST''
                    (msg_interpolation (INTERPOLATION_METHODS env) chosen)) 400)"
    and "chosen \<in> set (INTERPOLATION_METHODS env) \<Longrightarrow> load_config env = Inr cfg \<Longrightarrow>
         parse_locations (builtin_float env) (polyline_decode env) (args ''locations'')
           (max_locations_per_request cfg) = Inl e \<Longrightarrow>
           \<exists>m. e = ClientError m \<and>
               get_elevation env args name = Inr (Response (Error ''INVALID_REQUEST'' m) 400)"
    and "chosen \<in> set (INTERPOLATION_METHODS env) \<Longrightarrow> load_config env = Inr cfg \<Longrightarrow>
         parse_locations (builtin_float env) (polyline_decode env) (args ''locations'')
           (max_locations_per_request cfg) = Inr (lats, lons) \<Longrightarrow>
         load_datasets env = Inr datasets \<Longrightarrow> datasets name = None \<Longrightarrow>
           get_elevation env args name =
             Inr (Response (Error ''INVALID_REQUEST''
                    (''Dataset '' @ quote @ name @ quote @ '' not in config.'')) 400)"
    and "chosen \<in> set (INTERPOLATION_METHODS env) \<Longrightarrow> load_config env = Inr cfg \<Longrightarrow>
         parse_locations (builtin_float env) (polyline_decode env) (args ''locations'')
           (max_locations_per_request cfg) = Inr (lats, lons) \<Longrightarrow>
         load_datasets env = Inr datasets \<Longrightarrow> datasets name = Some dataset \<Longrightarrow>
         backend_get_elevation env lats lons dataset chosen = Inl (InputError m) \<Longrightarrow>
           get_elevation env args name = Inr (Response (Error ''INVALID_REQUEST'' m) 400)"
proof -
  show "chosen \<notin> set (INTERPOLATION_METHODS env) \<Longrightarrow>
           get_elevation env args name =
             Inr (Response (Error ''INVALID_REQUEST''
                    (msg_interpolation (INTERPOLATION_METHODS env) chosen)) 400)"
    using try_block_unregistered [of chosen args env name] assms
    by (simp add: handler_of_raise)
next
  assume reg: "chosen \<in> set (INTERPOLATION_METHODS env)" and cfg: "load_config env = Inr cfg"
    and p: "parse_locations (builtin_float env) (polyline_decode env) (args ''locations'')
           (max_locations_per_request cfg) = Inl e"
  from parse_locations_Inl [OF p] obtain m where m: "e = ClientError m"
    by blast
  from try_block_registered [of chosen args env name] assms reg cfg p m
  have "try_block env args name = Inl (ClientError m)"
    by simp
  with m show "\<exists>m. e = ClientError m \<and>
               get_elevation env args name = Inr (Response (Error ''INVALID_REQUEST'' m) 400)"
    by (simp add: handler_of_raise)
next
  assume reg: "chosen \<in> set (INTERPOLATION_METHODS env)" and cfg: "load_config env = Inr cfg"
    and p: "parse_locations (builtin_float env) (polyline_decode env) (args ''locations'')
           (max_locations_per_request cfg) = Inr (lats, lons)"
    and d: "load_datasets env = Inr datasets" "datasets name = None"
  from try_block_registered [of chosen args env name] assms reg cfg p d
  have "try_block env args name = Inl (ClientError (msg_dataset name))"
    by (simp add: get_dataset_def)
  then show "get_elevation env args name =
             Inr (Response (Error ''INVALID_REQUEST''
                    (''Dataset '' @ quote @ name @ quote @ '' not in config.'')) 400)"
    by (simp add: handler_of_raise msg_dataset_def)
next
  assume reg: "chosen \<in> set (INTERPOLATION_METHODS env)" and cfg: "load_config env = Inr cfg"
    and p: "parse_locations (builtin_float env) (polyline_decode env) (args ''locations'')
           (max_locations_per_request cfg) = Inr (lats, lons)"
    and d: "load_datasets env = Inr datasets" "datasets name = Some dataset"
    and b: "backend_get_elevation env lats lons dataset chosen = Inl (InputError m)"
  from try_block_registered [of chosen args env name] assms reg cfg p d b
  have "try_block env args name = Inl (InputError m)"
    by (simp add: get_dataset_def)
  then show "get_elevation env args name = Inr (Response (Error ''INVALID_REQUEST'' m) 400)"
    by (simp add: handler_of_raise)
qed

text \<open>
  The server's faults: the configuration or the dataset registry fails to load, or the
  backend raises something else than an \<^verbatim>\<open>InputError\<close>. A \<^verbatim>\<open>ConfigError\<close> leaves the
  handler as status 500, \<^verbatim>\<open>SERVER_ERROR\<close> and its message; any other exception as
  status 500 and the fixed message, or is raised again in debug mode.
\<close>

lemma server_faults_raised:
  assumes "chosen = (case args ''interpolation'' of None \<Rightarrow> ''bilinear'' | Some v \<Rightarrow> v)"
    and "chosen \<in> set (INTERPOLATION_METHODS env)"
  shows "load_config env = Inl e \<Longrightarrow> try_block env args name = Inl e"
    and "load_config env = Inr cfg \<Longrightarrow>
         parse_locations (builtin_float env) (polyline_decode env) (args ''locations'')
           (max_locations_per_request cfg) = Inr (lats, lons) \<Longrightarrow>
         load_datasets env = Inl e \<Longrightarrow> try_block env args name = Inl e"
    and "load_config env = Inr cfg \<Longrightarrow>
         parse_locations (builtin_float env) (polyline_decode env) (args ''locations'')
           (max_locations_per_request cfg) = Inr (lats, lons) \<Longrightarrow>
         load_datasets env = Inr datasets \<Longrightarrow> datasets name = Some dataset \<Longrightarrow>
         backend_get_elevation env lats lons dataset chosen = Inl e \<Longrightarrow>
           try_block env args name = Inl e"
  using try_block_registered [of chosen args env name] assms
  by (simp_all add: get_dataset_def)

text \<open>
  After the handler, the \<^verbatim>\<open>after_request\<close> function. When the configuration loads,
  it passes the handler's response on, with the configured origin as header; when the
  configuration does not load, it raises, whatever the handler had returned.
\<close>

lemma cors_when_config_loads:
  "load_config env = Inr cfg \<Longrightarrow> get_elevation env args name = Inr r \<Longrightarrow>
     elevation_request env args name =
       Inr (Http r (case access_control_allow_origin cfg of
                      None \<Rightarrow> None
                    | Some origin \<Rightarrow> if origin \<noteq> [] then Some origin else None))"
  by (simp add: elevation_request_def apply_cors_def split: option.splits)

lemma cors_when_config_fails:
  "load_config env = Inl e \<Longrightarrow> get_elevation env args name = Inr r \<Longrightarrow>
     elevation_request env args name = Inl e"
  by (simp add: elevation_request_def apply_cors_def)

text \<open>
  Claim C8 says that every error kind reaches the client as its JSON envelope: client
  faults and a backend \<^verbatim>\<open>InputError\<close> as status 400 with \<^verbatim>\<open>INVALID_REQUEST\<close>, a
  \<^verbatim>\<open>ConfigError\<close> as status 500 with \<^verbatim>\<open>SERVER_ERROR\<close>, any other exception as status
  500 with the fixed message (raised again in debug mode). The handler does build these
  responses, as the lemmas above show. But when \<^verbatim>\<open>_load_config()\<close> itself raises the
  \<^verbatim>\<open>ConfigError\<close>, the envelope the handler returns is lost: \<^verbatim>\<open>apply_cors\<close> runs on
  the returned response, calls \<^verbatim>\<open>_load_config()\<close> again outside any \<^verbatim>\<open>try\<close>, and the
  \<^verbatim>\<open>ConfigError\<close> leaves the module instead of the response.
\<close>

theorem config_error_response_lost:
  assumes "load_config env = Inl (ConfigError m)"
    and "(case args ''interpolation'' of None \<Rightarrow> ''bilinear'' | Some v \<Rightarrow> v)
           \<in> set (INTERPOLATION_METHODS env)"
  shows "get_elevation env args name = Inr (Response (Error ''SERVER_ERROR'' m) 500) \<and>
         elevation_request env args name = Inl (ConfigError m)"
proof -
  from server_faults_raised(1) [where args = args and env = env, OF refl assms(2) assms(1)]
  have "try_block env args name = Inl (ConfigError m)" .
  then have h: "get_elevation env args name = Inr (Response (Error ''SERVER_ERROR'' m) 500)"
    by (rule handler_of_raise(3))
  from cors_when_config_fails [OF assms(1) h] h show ?thesis
    by simp
qed

theorem config_error_response_lost_witness:
  "get_elevation (example_env\<lparr>load_config := Inl (ConfigError ''No config file.'')\<rparr>)
     [''locations'' \<mapsto> ''1,2''] ''test-dataset'' =
     Inr (Response (Error ''SERVER_ERROR'' ''No config file.'') 500) \<and>
   elevation_request (example_env\<lparr>load_config := Inl (ConfigError ''No config file.'')\<rparr>)
     [''locations'' \<mapsto> ''1,2''] ''test-dataset'' = Inl (ConfigError ''No config file.'')"
  using config_error_response_lost [where env = "example_env\<lparr>load_config :=
        Inl (ConfigError ''No config file.'')\<rparr>" and m = "''No config file.''"
      and args = "[''locations'' \<mapsto> ''1,2'']" and name = "''test-dataset''"]
  by (simp add: example_env_def)

text \<open>The same requests when the configuration loads: the response of the handler
  reaches the client, with the header.\<close>

lemma elevation_request_examples:
  "elevation_request example_env [''locations'' \<mapsto> ''-10,120''] ''test-dataset'' =
     Inr (Http (Response (Results ''OK'' [Result (Some (Finite 0)) (Finite (- 10)) (Finite 120)])
            200) (Some ''*''))"
  "elevation_request example_env Map.empty ''test-dataset'' =
     Inr (Http (Response (Error ''INVALID_REQUEST'' msg_no_locations) 400) (Some ''*''))"
  "elevation_request example_env [''locations'' \<mapsto> ''200,50''] ''test-dataset'' =
     Inr (Http (Response (Error ''INVALID_REQUEST''
            (''Unable to parse location '' @ quote @ ''200,50'' @ quote @
             '' in position 1. Latitude must be between -90 and 90.'' @
             '' Provide locations in lat,lon order.'')) 400) (Some ''*''))"
  "elevation_request (example_env\<lparr>load_datasets := Inl (ConfigError ''No datasets.'')\<rparr>)
     [''locations'' \<mapsto> ''-10,120''] ''test-dataset'' =
     Inr (Http (Response (Error ''SERVER_ERROR'' ''No datasets.'') 500) (Some ''*''))"
proof -
  have lat: "parse_locations py_float polyline_decode_std (Some ''200,50'') 100 =
     Inl (ClientError (''Unable to parse location '' @ quote @ ''200,50'' @ quote @
             '' in position 1. Latitude must be between -90 and 90.'' @
             '' Provide locations in lat,lon order.''))"
    by (simp add: parse_locations_def single_segment_eval)
  show "elevation_request example_env [''locations'' \<mapsto> ''-10,120''] ''test-dataset'' =
     Inr (Http (Response (Results ''OK'' [Result (Some (Finite 0)) (Finite (- 10)) (Finite 120)])
            200) (Some ''*''))"
    by (simp add: elevation_request_def apply_cors_def get_elevation_def try_block_def
          example_env_def DEFAULT_INTERPOLATION_METHOD_def validate_interpolation_def
          parse_examples get_dataset_def)
  show "elevation_request example_env Map.empty ''test-dataset'' =
     Inr (Http (Response (Error ''INVALID_REQUEST'' msg_no_locations) 400) (Some ''*''))"
    by (simp add: elevation_request_def apply_cors_def get_elevation_def try_block_def
          example_env_def DEFAULT_INTERPOLATION_METHOD_def validate_interpolation_def
          parse_locations_empty)
  show "elevation_request example_env [''locations'' \<mapsto> ''200,50''] ''test-dataset'' =
     Inr (Http (Response (Error ''INVALID_REQUEST''
            (''Unable to parse location '' @ quote @ ''200,50'' @ quote @
             '' in position 1. Latitude must be between -90 and 90.'' @
             '' Provide locations in lat,lon order.'')) 400) (Some ''*''))"
    by (simp add: elevation_request_def apply_cors_def get_elevation_def try_block_def
          example_env_def DEFAULT_INTERPOLATION_METHOD_def validate_interpolation_def lat)
  show "elevation_request (example_env\<lparr>load_datasets := Inl (ConfigError ''No datasets.'')\<rparr>)
     [''locations'' \<mapsto> ''-10,120''] ''test-dataset'' =
     Inr (Http (Response (Error ''SERVER_ERROR'' ''No datasets.'') 500) (Some ''*''))"
    by (simp add: elevation_request_def apply_cors_def get_elevation_def try_block_def
          example_env_def DEFAULT_INTERPOLATION_METHOD_def validate_interpolation_def
          parse_examples get_dataset_def)
qed

end
